theory Spec2Isabelle
  imports Main
begin

section \<open>Values and requests of migrate-views.js\<close>

text \<open>
  The script moves the cards and decks of one Predix Views instance to another.  Its
  values are JavaScript objects decoded from JSON.  The model types them the way the
  script reads them: an item (a card or a deck) has an id, and may have a list of tags,
  an \<open>attributes\<close> object that may hold a list of cards, and a top-level list of cards.
  A property that may be missing is an \<open>option\<close>; \<open>None\<close> is JavaScript's
  \<open>undefined\<close>.  The id of an item is kept as the text a template literal renders
  for it.  The elements of a list of items are objects, so the first conjunct of the
  guards \<open>item && ...\<close> and \<open>deck && ...\<close> holds for every element.
\<close>

record tag =
  tag_value :: string

record card =
  card_id :: string

record attributes =
  attributes_cards :: "card list option"

record item =
  item_id :: string
  tags :: "tag list option"
  attributes :: "attributes option"
  cards :: "card list option"

text \<open>
  The JavaScript values that travel as request and response bodies: nothing, \<open>null\<close>,
  a string, a list of items, the list of \<open>{value: ...}\<close> objects of a tag request, and
  the list of card ids of an association request.
\<close>

datatype jsval =
    Undefined
  | Null
  | Text string
  | Items "item list"
  | TagValues "string list"
  | CardIds "string list"

text \<open>Truthiness, as the conditional operator \<open>x ? a : b\<close> and \<open>&&\<close> read a value.\<close>

fun truthy :: "jsval \<Rightarrow> bool" where
  "truthy Undefined = False"
| "truthy Null = False"
| "truthy (Text s) = (s \<noteq> [])"
| "truthy (Items xs) = True"
| "truthy (TagValues vs) = True"
| "truthy (CardIds ids) = True"

text \<open>
  \<open>x.length\<close>: a \<open>TypeError\<close> (here \<open>None\<close>) on \<open>undefined\<close> and \<open>null\<close>, the
  length otherwise.
\<close>

fun js_length :: "jsval \<Rightarrow> nat option" where
  "js_length Undefined = None"
| "js_length Null = None"
| "js_length (Text s) = Some (length s)"
| "js_length (Items xs) = Some (length xs)"
| "js_length (TagValues vs) = Some (length vs)"
| "js_length (CardIds ids) = Some (length ids)"

text \<open>
  An element that has none of the properties the script reads (a character of a string,
  a \<open>{value: ...}\<close> object, a card id): its id renders as \<open>undefined\<close>.
\<close>

definition blank :: item where
  "blank = \<lparr>item_id = ''undefined'', tags = None, attributes = None, cards = None\<rparr>"

text \<open>
  The elements lodash's \<open>_.each\<close> visits, in order: none for \<open>undefined\<close> and
  \<open>null\<close>, the characters of a string, the elements of an array.
\<close>

fun each_elements :: "jsval \<Rightarrow> item list" where
  "each_elements Undefined = []"
| "each_elements Null = []"
| "each_elements (Text s) = map (\<lambda>c. blank) s"
| "each_elements (Items xs) = xs"
| "each_elements (TagValues vs) = map (\<lambda>v. blank) vs"
| "each_elements (CardIds ids) = map (\<lambda>i. blank) ids"

subsection \<open>Numbers as text\<close>

text \<open>\<open>Number.prototype.toString\<close> on a status code: its decimal digits.\<close>

definition digit_char :: "nat \<Rightarrow> char" where
  "digit_char d = ''0123456789'' ! d"

fun toString :: "nat \<Rightarrow> string" where
  "toString n = (if n < 10 then [digit_char n] else toString (n div 10) @ [digit_char (n mod 10)])"

declare toString.simps [simp del]

text \<open>\<open>String.prototype.indexOf\<close> for a one-character needle: the first index, or -1.\<close>

fun indexOf :: "string \<Rightarrow> char \<Rightarrow> int" where
  "indexOf [] c = - 1"
| "indexOf (x # xs) c =
     (if x = c then 0 else (let i = indexOf xs c in if i < 0 then - 1 else i + 1))"

subsection \<open>The transport and the trace of calls\<close>

text \<open>
  The options object handed to \<open>request\<close> by \<open>requestToken\<close> and by
  \<open>requestViewsData\<close>, and the response object the transport hands to the callback.
\<close>

record token_request =
  uaa_url :: string
  uaa_authorization :: string
  uaa_content_type :: string
  uaa_method :: string
  uaa_body :: string

record request =
  url :: string
  predix_zone_id :: string
  authorization :: string
  http_method :: string
  json :: bool
  body :: jsval

type_synonym headers = "(string \<times> string) list"

record response =
  statusCode :: nat
  response_headers :: "headers option"

datatype call = Token token_request | Views request

text \<open>The decoded token document; \<open>access_token\<close> may be missing.\<close>

record token_response =
  access_token :: "string option"

text \<open>
  What the script runs on.  The transport answers a request with the three arguments of
  the callback: an error or none, a response or none, and a body.  Its answer may depend
  on every call issued before, so that a service with state is one of the transports.
  It reports through the callback and throws nothing itself, so the \<open>catch\<close> around
  the call in \<open>requestViewsData\<close> is never entered.  \<open>JSON.parse\<close> decodes a text
  or throws (\<open>None\<close>).
\<close>

record runtime =
  uaa :: "call list \<Rightarrow> token_request \<Rightarrow> string option \<times> response option \<times> string option"
  views :: "call list \<Rightarrow> request \<Rightarrow> string option \<times> response option \<times> jsval"
  JSON_parse_token :: "string \<Rightarrow> token_response option"
  JSON_parse :: "string \<Rightarrow> jsval option"

subsection \<open>Promises\<close>

text \<open>
  A promise is given by the state it ends in: resolved with a value, rejected with a
  reason, or never settled.  The reasons are the template strings of the script, kept as
  their parts, and the \<open>TypeError\<close> of a property read on \<open>undefined\<close>.
  A promise whose callback throws is among those that never settle: the callback runs
  outside every executor and every promise, nothing catches its exception, and the
  exception ends the process.
\<close>

datatype reason =
    TokenError string
  | RequestError string string string jsval string jsval
  | TypeError

datatype 'a promise = Resolved 'a | Rejected reason | Pending

record views_result =
  res_body :: jsval
  res_headers :: headers

section \<open>requestToken\<close>

text \<open>
  The callback of \<open>requestToken\<close>.  \<open>JSON.parse\<close> runs inside the callback, outside
  the promise's executor: when it throws, neither \<open>resolve\<close> nor \<open>reject\<close> is called
  and the promise never settles; the exception ends the process.
\<close>

definition requestToken_callback ::
  "runtime \<Rightarrow> string option \<Rightarrow> response option \<Rightarrow> string option \<Rightarrow> token_response promise" where
  "requestToken_callback rt error response body' =
     (if error = None \<and> (case response of None \<Rightarrow> False | Some r \<Rightarrow> statusCode r = 200)
      then (case body' of
              None \<Rightarrow> Pending
            | Some s \<Rightarrow> (case JSON_parse_token rt s of None \<Rightarrow> Pending | Some v \<Rightarrow> Resolved v))
      else Rejected (TokenError (''Error retrieving token. Response returned status code '' @
             (case response of Some r \<Rightarrow> toString (statusCode r) | None \<Rightarrow> ''unknown''))))"

definition token_options :: "string \<Rightarrow> string \<Rightarrow> token_request" where
  "token_options uaaUrl credentials =
     \<lparr>uaa_url = uaaUrl @ ''/oauth/token'',
      uaa_authorization = ''Basic '' @ credentials,
      uaa_content_type = ''application/x-www-form-urlencoded'',
      uaa_method = ''POST'',
      uaa_body = ''grant_type=client_credentials&response_type=token''\<rparr>"

definition requestToken ::
  "runtime \<Rightarrow> string \<Rightarrow> string \<Rightarrow> call list \<Rightarrow> token_response promise \<times> call list" where
  "requestToken rt uaaUrl credentials tr =
     (case uaa rt tr (token_options uaaUrl credentials) of
        (error, response, body') \<Rightarrow>
          (requestToken_callback rt error response body',
           tr @ [Token (token_options uaaUrl credentials)]))"

section \<open>requestViewsData\<close>

text \<open>\<open>method ? method : 'GET'\<close>: the default applies to a missing and to an empty method.\<close>

definition method_or_GET :: "string option \<Rightarrow> string" where
  "method_or_GET m = (case m of None \<Rightarrow> ''GET'' | Some s \<Rightarrow> if s = [] then ''GET'' else s)"

definition views_options :: "string \<Rightarrow> string \<Rightarrow> string \<Rightarrow> string option \<Rightarrow> jsval \<Rightarrow> request" where
  "views_options url' zoneId token m body' =
     \<lparr>url = url',
      predix_zone_id = zoneId,
      authorization = token,
      http_method = method_or_GET m,
      json = truthy body',
      body = (if truthy body' then body' else Null)\<rparr>"

text \<open>
  The callback of \<open>requestViewsData\<close>.  The rejection carries the parts of the
  script's message: the URL, the method, the zone id, the request body, the status code
  as text (\<open>unknown\<close> without a response) and the response body.  As in
  \<open>requestToken\<close>, a \<open>JSON.parse\<close> that throws leaves the promise unsettled and
  ends the process: the \<open>try\<close> of lines 51 to 76 has returned when the callback runs.
\<close>

definition requestViewsData_callback ::
  "runtime \<Rightarrow> string \<Rightarrow> string \<Rightarrow> string option \<Rightarrow> jsval \<Rightarrow>
     string option \<Rightarrow> response option \<Rightarrow> jsval \<Rightarrow> views_result promise" where
  "requestViewsData_callback rt url' zoneId m body' error response responseBody =
     (if error \<noteq> None \<or>
         (case response of None \<Rightarrow> False
          | Some r \<Rightarrow> indexOf (toString (statusCode r)) CHR ''2'' \<noteq> 0)
      then Rejected (RequestError url' (method_or_GET m) zoneId body'
             (case response of Some r \<Rightarrow> toString (statusCode r) | None \<Rightarrow> ''unknown'')
             responseBody)
      else (let hs = (case response of
                        None \<Rightarrow> []
                      | Some r \<Rightarrow> (case response_headers r of Some h \<Rightarrow> h | None \<Rightarrow> []))
            in case responseBody of
                 Text s \<Rightarrow>
                   (if s \<noteq> []
                    then (case JSON_parse rt s of
                            None \<Rightarrow> Pending
                          | Some v \<Rightarrow> Resolved \<lparr>res_body = v, res_headers = hs\<rparr>)
                    else Resolved \<lparr>res_body = responseBody, res_headers = hs\<rparr>)
               | _ \<Rightarrow> Resolved \<lparr>res_body = responseBody, res_headers = hs\<rparr>))"

definition requestViewsData ::
  "runtime \<Rightarrow> string \<Rightarrow> string \<Rightarrow> string \<Rightarrow> string option \<Rightarrow> jsval \<Rightarrow> call list \<Rightarrow>
     views_result promise \<times> call list" where
  "requestViewsData rt url' zoneId token m body' tr =
     (case views rt tr (views_options url' zoneId token m body') of
        (error, response, responseBody) \<Rightarrow>
          (requestViewsData_callback rt url' zoneId m body' error response responseBody,
           tr @ [Views (views_options url' zoneId token m body')]))"

section \<open>The bulk operations\<close>

text \<open>
  Bluebird's \<open>Promise.all\<close>: rejected when one of the promises is, resolved when all
  are, unsettled otherwise.  Of several rejections JavaScript reports the one that
  arrives first; the model reports the first in the list, and no caller reads it.
\<close>

fun Promise_all :: "'a promise list \<Rightarrow> 'a list promise" where
  "Promise_all [] = Resolved []"
| "Promise_all (p # ps) =
     (case p of
        Rejected e \<Rightarrow> Rejected e
      | Resolved v \<Rightarrow>
          (case Promise_all ps of
             Resolved vs \<Rightarrow> Resolved (v # vs)
           | Rejected e \<Rightarrow> Rejected e
           | Pending \<Rightarrow> Pending)
      | Pending \<Rightarrow>
          (case Promise_all ps of Rejected e \<Rightarrow> Rejected e | _ \<Rightarrow> Pending))"

text \<open>
  \<open>Promise.all(promises).then(() => resolve())\<close> inside
  \<open>new Promise((resolve, reject) => ...)\<close>: the outer promise resolves when the
  aggregate does.  \<open>reject\<close> is never called, and the handler has no rejection branch:
  when the aggregate is rejected the outer promise stays unsettled.
\<close>

definition then_resolve :: "'a list promise \<Rightarrow> unit promise" where
  "then_resolve p = (case p of Resolved vs \<Rightarrow> Resolved () | Rejected e \<Rightarrow> Pending | Pending \<Rightarrow> Pending)"

text \<open>The loop of \<open>deleteData\<close>: one \<open>DELETE\<close> per element, all issued before any settles.\<close>

fun deleteData_each ::
  "runtime \<Rightarrow> item list \<Rightarrow> string \<Rightarrow> string \<Rightarrow> string \<Rightarrow> call list \<Rightarrow>
     views_result promise list \<times> call list" where
  "deleteData_each rt [] url' zoneId token tr = ([], tr)"
| "deleteData_each rt (x # xs) url' zoneId token tr =
     (case requestViewsData rt (url' @ ''/'' @ item_id x) zoneId token (Some ''DELETE'') Undefined tr of
        (promise, tr1) \<Rightarrow>
          (case deleteData_each rt xs url' zoneId token tr1 of
             (promises, tr2) \<Rightarrow> (promise # promises, tr2)))"

text \<open>
  \<open>deleteData\<close>.  \<open>items.length\<close> is read for the console first; its
  \<open>TypeError\<close>, thrown inside the executor, rejects the promise.  The last parameter
  only names the kind of item on the console.
\<close>

definition deleteData ::
  "runtime \<Rightarrow> jsval \<Rightarrow> string \<Rightarrow> string \<Rightarrow> string \<Rightarrow> string \<Rightarrow> call list \<Rightarrow>
     unit promise \<times> call list" where
  "deleteData rt items url' zoneId token kind tr =
     (case js_length items of
        None \<Rightarrow> (Rejected TypeError, tr)
      | Some n \<Rightarrow>
          (case deleteData_each rt (each_elements items) url' zoneId token tr of
             (promises, tr1) \<Rightarrow> (then_resolve (Promise_all promises), tr1)))"

text \<open>\<open>item.tags && item.tags.length > 0\<close>\<close>

definition has_tags :: "item \<Rightarrow> bool" where
  "has_tags x = (case tags x of None \<Rightarrow> False | Some ts \<Rightarrow> 0 < length ts)"

definition tag_values :: "item \<Rightarrow> jsval" where
  "tag_values x = TagValues (map tag_value (case tags x of None \<Rightarrow> [] | Some ts \<Rightarrow> ts))"

fun addTags_each ::
  "runtime \<Rightarrow> string \<Rightarrow> item list \<Rightarrow> string \<Rightarrow> string \<Rightarrow> call list \<Rightarrow>
     views_result promise list \<times> call list" where
  "addTags_each rt url' [] zoneId token tr = ([], tr)"
| "addTags_each rt url' (x # xs) zoneId token tr =
     (if has_tags x
      then (case requestViewsData rt (url' @ ''/'' @ item_id x @ ''/tags'') zoneId token
                   (Some ''POST'') (tag_values x) tr of
              (promise, tr1) \<Rightarrow>
                (case addTags_each rt url' xs zoneId token tr1 of
                   (promises, tr2) \<Rightarrow> (promise # promises, tr2)))
      else addTags_each rt url' xs zoneId token tr)"

definition addTags ::
  "runtime \<Rightarrow> string \<Rightarrow> jsval \<Rightarrow> string \<Rightarrow> string \<Rightarrow> call list \<Rightarrow> unit promise \<times> call list" where
  "addTags rt url' list' zoneId token tr =
     (case js_length list' of
        None \<Rightarrow> (Rejected TypeError, tr)
      | Some n \<Rightarrow>
          (case addTags_each rt url' (each_elements list') zoneId token tr of
             (promises, tr1) \<Rightarrow> (then_resolve (Promise_all promises), tr1)))"

section \<open>The pipeline\<close>

text \<open>
  \<open>views-config.json\<close>, with the fields \<open>getConfig\<close> adds to the same object.
\<close>

record config =
  originalViewsUrl :: string
  destinationViewsUrl :: string
  originalViewsZoneId :: string
  destinationViewsZoneId :: string
  originalUaaUrl :: string
  destinationUaaUrl :: string
  originalUaaCredentials :: string
  destinationUaaCredentials :: string
  clearDestination :: bool
  originalCardsUrl :: string
  originalDecksUrl :: string
  destinationCardsUrl :: string
  destinationDecksUrl :: string
  originalToken :: string
  destinationToken :: string

definition getConfig :: "config \<Rightarrow> config" where
  "getConfig c =
     c\<lparr>originalCardsUrl := originalViewsUrl c @ ''/api/cards'',
       originalDecksUrl := originalViewsUrl c @ ''/api/decks'',
       destinationCardsUrl := destinationViewsUrl c @ ''/api/cards'',
       destinationDecksUrl := destinationViewsUrl c @ ''/api/decks'',
       originalToken := [],
       destinationToken := []\<rparr>"

text \<open>
  \<open>yield p\<close> in the coroutine: the rest runs with the value of a resolved promise; a
  rejection is thrown into the generator, which catches nothing, so the coroutine's
  promise is rejected with it; on a promise that never settles the coroutine never
  resumes.
\<close>

definition yield ::
  "'a promise \<times> call list \<Rightarrow> ('a \<Rightarrow> call list \<Rightarrow> 'b promise \<times> call list) \<Rightarrow>
     'b promise \<times> call list" where
  "yield p k =
     (case p of
        (Resolved v, tr) \<Rightarrow> k v tr
      | (Rejected e, tr) \<Rightarrow> (Rejected e, tr)
      | (Pending, tr) \<Rightarrow> (Pending, tr))"

text \<open>The template \<open>`Bearer ${x.access_token}`\<close>.\<close>

definition bearer :: "token_response \<Rightarrow> string" where
  "bearer t = ''Bearer '' @ (case access_token t of None \<Rightarrow> ''undefined'' | Some s \<Rightarrow> s)"

text \<open>Lines 161 to 168: the body of \<open>if (config.clearDestination)\<close>.\<close>

definition clear_destination :: "runtime \<Rightarrow> config \<Rightarrow> call list \<Rightarrow> unit promise \<times> call list" where
  "clear_destination rt config tr =
     yield (requestViewsData rt (destinationCardsUrl config) (destinationViewsZoneId config)
              (destinationToken config) None Undefined tr) (\<lambda>r1 tr1.
     yield (requestViewsData rt (destinationDecksUrl config) (destinationViewsZoneId config)
              (destinationToken config) None Undefined tr1) (\<lambda>r2 tr2.
     yield (deleteData rt (res_body r1) (destinationCardsUrl config) (destinationViewsZoneId config)
              (destinationToken config) ''card'' tr2) (\<lambda>u tr3.
     deleteData rt (res_body r2) (destinationDecksUrl config) (destinationViewsZoneId config)
       (destinationToken config) ''deck'' tr3)))"

text \<open>
  Lines 170 to 184: the cards.  \<open>cards.length\<close> is read for the console and throws
  on \<open>undefined\<close>.  The cards fetched back from the destination are bound to
  \<open>destinationCards\<close> and not read again; the tags go to \<open>cards\<close>.
\<close>

definition migrate_cards :: "runtime \<Rightarrow> config \<Rightarrow> call list \<Rightarrow> unit promise \<times> call list" where
  "migrate_cards rt config tr =
     yield (requestViewsData rt (originalCardsUrl config) (originalViewsZoneId config)
              (originalToken config) None Undefined tr) (\<lambda>r tr1.
     (case js_length (res_body r) of
        None \<Rightarrow> (Rejected TypeError, tr1)
      | Some n \<Rightarrow>
          yield (requestViewsData rt (destinationViewsUrl config @ ''/api/cards'')
                   (destinationViewsZoneId config) (destinationToken config) (Some ''POST'')
                   (res_body r) tr1) (\<lambda>posted tr2.
          yield (requestViewsData rt (destinationViewsUrl config @ ''/api/cards'')
                   (destinationViewsZoneId config) (destinationToken config) None Undefined tr2)
            (\<lambda>destinationCards tr3.
          addTags rt (destinationCardsUrl config) (res_body r) (destinationViewsZoneId config)
            (destinationToken config) tr3))))"

text \<open>Lines 186 to 199: the decks; the stage hands the origin decks on.\<close>

definition migrate_decks :: "runtime \<Rightarrow> config \<Rightarrow> call list \<Rightarrow> jsval promise \<times> call list" where
  "migrate_decks rt config tr =
     yield (requestViewsData rt (originalDecksUrl config @ ''?filter[include][cards]'')
              (originalViewsZoneId config) (originalToken config) None Undefined tr) (\<lambda>r tr1.
     (case js_length (res_body r) of
        None \<Rightarrow> (Rejected TypeError, tr1)
      | Some n \<Rightarrow>
          yield (requestViewsData rt (destinationDecksUrl config) (destinationViewsZoneId config)
                   (destinationToken config) (Some ''POST'') (res_body r) tr1) (\<lambda>posted tr2.
          yield (addTags rt (destinationDecksUrl config) (res_body r) (destinationViewsZoneId config)
                   (destinationToken config) tr2) (\<lambda>u tr3.
          (Resolved (res_body r), tr3)))))"

text \<open>
  Lines 203 to 209: the loop over the decks at the origin.  Its guard reads
  \<open>deck.attributes.cards\<close>.  The script drops the promise of each call; the model
  hands them back beside the calls, in the order of issue, so that the stage can tell
  whether the callback of one of them threw.
\<close>

definition has_attributes_cards :: "item \<Rightarrow> bool" where
  "has_attributes_cards d =
     (case attributes d of
        None \<Rightarrow> False
      | Some a \<Rightarrow> (case attributes_cards a of None \<Rightarrow> False | Some cs \<Rightarrow> 0 < length cs))"

definition attributes_card_ids :: "item \<Rightarrow> jsval" where
  "attributes_card_ids d =
     CardIds (map card_id
       (case attributes d of
          None \<Rightarrow> []
        | Some a \<Rightarrow> (case attributes_cards a of None \<Rightarrow> [] | Some cs \<Rightarrow> cs)))"

fun associate_origin_each ::
  "runtime \<Rightarrow> config \<Rightarrow> item list \<Rightarrow> call list \<Rightarrow> views_result promise list \<times> call list" where
  "associate_origin_each rt config [] tr = ([], tr)"
| "associate_origin_each rt config (d # ds) tr =
     (if has_attributes_cards d
      then (case requestViewsData rt (originalDecksUrl config @ ''/'' @ item_id d @ ''/cards/add'')
                   (originalViewsZoneId config) (originalToken config) (Some ''POST'')
                   (attributes_card_ids d) tr of
              (promise, tr1) \<Rightarrow>
                (case associate_origin_each rt config ds tr1 of
                   (dropped, tr2) \<Rightarrow> (promise # dropped, tr2)))
      else associate_origin_each rt config ds tr)"

text \<open>
  Lines 210 to 223: the loop over the decks at the destination.  Its guard reads
  \<open>deck.cards\<close>.
\<close>

definition has_cards :: "item \<Rightarrow> bool" where
  "has_cards d = (case cards d of None \<Rightarrow> False | Some cs \<Rightarrow> 0 < length cs)"

definition card_ids :: "item \<Rightarrow> jsval" where
  "card_ids d = CardIds (map card_id (case cards d of None \<Rightarrow> [] | Some cs \<Rightarrow> cs))"

fun associate_destination_each ::
  "runtime \<Rightarrow> config \<Rightarrow> item list \<Rightarrow> call list \<Rightarrow> views_result promise list \<times> call list" where
  "associate_destination_each rt config [] tr = ([], tr)"
| "associate_destination_each rt config (d # ds) tr =
     (if has_cards d
      then (case requestViewsData rt (destinationDecksUrl config @ ''/'' @ item_id d @ ''/cards/add'')
                   (destinationViewsZoneId config) (destinationToken config) (Some ''POST'')
                   (card_ids d) tr of
              (promise, tr1) \<Rightarrow>
                (case associate_destination_each rt config ds tr1 of
                   (promises, tr2) \<Rightarrow> (promise # promises, tr2)))
      else associate_destination_each rt config ds tr)"

text \<open>
  Lines 201 to 224: both loops, and the \<open>yield\<close> on the second.  Both loops run
  before any answer arrives, so the calls to the destination follow those to the origin
  whatever the origin answers.  Nothing reads the promises of the first loop: a
  rejection among them has no effect on the run.  A promise among them that stays
  unsettled is one whose callback threw in \<open>JSON.parse\<close>
  (\<open>requestViewsData\<close> leaves a promise unsettled in no other way).  The callback
  runs outside the executor and outside every promise, so nothing catches the exception
  and it ends the process.  The outcome of a run ended this way is \<open>Pending\<close>, as
  it is when the callback of an awaited call throws.
\<close>

definition associate_cards :: "runtime \<Rightarrow> config \<Rightarrow> jsval \<Rightarrow> call list \<Rightarrow> unit promise \<times> call list" where
  "associate_cards rt config decks tr =
     (case associate_origin_each rt config (each_elements decks) tr of
        (dropped, tr1) \<Rightarrow>
          (case associate_destination_each rt config (each_elements decks) tr1 of
             (promises, tr2) \<Rightarrow>
               (if list_ex (\<lambda>p. p = Pending) dropped then Pending
                else then_resolve (Promise_all promises), tr2)))"

text \<open>
  \<open>migrateGenerator\<close>: the state the promise of the coroutine ends in, and the
  calls the run issued, in the order of issue.  The state is \<open>Pending\<close> when the
  promise is never settled, also when that is because an exception ended the process.
  Console output is left out.
\<close>

definition migrateGenerator :: "runtime \<Rightarrow> config \<Rightarrow> unit promise \<times> call list" where
  "migrateGenerator rt localConfig =
     (let config = getConfig localConfig in
      yield (requestToken rt (originalUaaUrl config) (originalUaaCredentials config) [])
        (\<lambda>t1 tr1.
      (let config = config\<lparr>originalToken := bearer t1\<rparr> in
       yield (requestToken rt (destinationUaaUrl config) (destinationUaaCredentials config) tr1)
         (\<lambda>t2 tr2.
       (let config = config\<lparr>destinationToken := bearer t2\<rparr> in
        yield (if clearDestination config then clear_destination rt config tr2
               else (Resolved (), tr2)) (\<lambda>u tr3.
        yield (migrate_cards rt config tr3) (\<lambda>u tr4.
        yield (migrate_decks rt config tr4) (\<lambda>decks tr5.
        associate_cards rt config decks tr5))))))))"

section \<open>Reading a trace\<close>

text \<open>The requests to the views service among the calls, in the order of issue.\<close>

fun views_requests :: "call list \<Rightarrow> request list" where
  "views_requests [] = []"
| "views_requests (Token t # cs) = views_requests cs"
| "views_requests (Views q # cs) = q # views_requests cs"

text \<open>The calls \<open>deleteData\<close> and \<open>addTags\<close> issue for an item.\<close>

definition delete_call :: "string \<Rightarrow> string \<Rightarrow> string \<Rightarrow> item \<Rightarrow> call" where
  "delete_call url' zoneId token x =
     Views (views_options (url' @ ''/'' @ item_id x) zoneId token (Some ''DELETE'') Undefined)"

definition tag_call :: "string \<Rightarrow> string \<Rightarrow> string \<Rightarrow> item \<Rightarrow> call" where
  "tag_call url' zoneId token x =
     Views (views_options (url' @ ''/'' @ item_id x @ ''/tags'') zoneId token (Some ''POST'')
       (tag_values x))"

text \<open>A promise that resolved, whatever its value.\<close>

fun resolved :: "'a promise \<Rightarrow> bool" where
  "resolved (Resolved v) = True"
| "resolved (Rejected e) = False"
| "resolved Pending = False"

text \<open>
  The call \<open>requestToken\<close> issues, and the call of a \<open>requestViewsData\<close> that is
  given neither a method nor a body.
\<close>

definition token_call :: "string \<Rightarrow> string \<Rightarrow> call" where
  "token_call uaaUrl credentials = Token (token_options uaaUrl credentials)"

definition get_call :: "string \<Rightarrow> string \<Rightarrow> string \<Rightarrow> call" where
  "get_call url' zoneId token = Views (views_options url' zoneId token None Undefined)"

text \<open>
  Every \<open>DELETE\<close> has resolved, of those \<open>deleteData\<close> issues for the items
  \<open>xs\<close> after the calls \<open>tr\<close>.  The request for an item is issued after the requests
  for the items before it.
\<close>

definition deleted :: "runtime \<Rightarrow> string \<Rightarrow> string \<Rightarrow> string \<Rightarrow> call list \<Rightarrow> item list \<Rightarrow> bool" where
  "deleted rt url' zoneId token tr xs =
     list_all
       (\<lambda>i. resolved (fst (requestViewsData rt (url' @ ''/'' @ item_id (xs ! i)) zoneId token
                              (Some ''DELETE'') Undefined
                              (tr @ map (delete_call url' zoneId token) (take i xs)))))
       [0..<length xs]"

text \<open>
  The calls a step added to a trace are all requests to the views service that
  satisfy a condition.
\<close>

definition issues_only :: "(request \<Rightarrow> bool) \<Rightarrow> call list \<Rightarrow> call list \<Rightarrow> bool" where
  "issues_only P tr tr' =
     (take (length tr) tr' = tr \<and> list_all P (views_requests (drop (length tr) tr')))"

text \<open>The calls the two loops over the decks issue for a deck.\<close>

definition origin_association_call :: "config \<Rightarrow> item \<Rightarrow> call" where
  "origin_association_call config d =
     Views (views_options (originalDecksUrl config @ ''/'' @ item_id d @ ''/cards/add'')
       (originalViewsZoneId config) (originalToken config) (Some ''POST'') (attributes_card_ids d))"

definition destination_association_call :: "config \<Rightarrow> item \<Rightarrow> call" where
  "destination_association_call config d =
     Views (views_options (destinationDecksUrl config @ ''/'' @ item_id d @ ''/cards/add'')
       (destinationViewsZoneId config) (destinationToken config) (Some ''POST'') (card_ids d))"




section \<open>Sample data\<close>

text \<open>
  A transport and a configuration to run the script on.  \<open>JSON.parse\<close> is given on
  the texts the samples hand to it: the token document and \<open>[]\<close> decode; the other
  texts (\<open>OK\<close>, the empty text) are not JSON.
\<close>

definition sample_JSON_parse_token :: "string \<Rightarrow> token_response option" where
  "sample_JSON_parse_token s =
     (if s = ''{\"access_token\":\"abc\"}'' then Some \<lparr>access_token = Some ''abc''\<rparr> else None)"

definition sample_JSON_parse :: "string \<Rightarrow> jsval option" where
  "sample_JSON_parse s = (if s = ''[]'' then Some (Items []) else None)"

definition status :: "nat \<Rightarrow> response" where
  "status n = \<lparr>statusCode = n, response_headers = None\<rparr>"

definition sample_uaa :: "call list \<Rightarrow> token_request \<Rightarrow> string option \<times> response option \<times> string option" where
  "sample_uaa tr r = (None, Some (status 200), Some ''{\"access_token\":\"abc\"}'')"

text \<open>A runtime around two services, and the views service that gives one answer to every request.\<close>

definition runtime_of ::
  "(call list \<Rightarrow> token_request \<Rightarrow> string option \<times> response option \<times> string option) \<Rightarrow>
   (call list \<Rightarrow> request \<Rightarrow> string option \<times> response option \<times> jsval) \<Rightarrow> runtime" where
  "runtime_of token_service service =
     \<lparr>uaa = token_service, views = service,
      JSON_parse_token = sample_JSON_parse_token, JSON_parse = sample_JSON_parse\<rparr>"

definition always :: "string option \<times> response option \<times> jsval \<Rightarrow> runtime" where
  "always answer = runtime_of sample_uaa (\<lambda>tr r. answer)"

text \<open>The cards and the deck of the scenarios in the specification's section 8.\<close>

definition card_1 :: item where
  "card_1 = \<lparr>item_id = ''1'', tags = Some [\<lparr>tag_value = ''x''\<rparr>], attributes = None, cards = None\<rparr>"

definition card_2 :: item where
  "card_2 = \<lparr>item_id = ''2'', tags = Some [], attributes = None, cards = None\<rparr>"

definition card_3 :: item where
  "card_3 = \<lparr>item_id = ''3'', tags = None, attributes = None, cards = None\<rparr>"

definition deck_d1 :: item where
  "deck_d1 =
     \<lparr>item_id = ''d1'', tags = None,
      attributes = Some \<lparr>attributes_cards = Some [\<lparr>card_id = ''1''\<rparr>, \<lparr>card_id = ''2''\<rparr>]\<rparr>,
      cards = None\<rparr>"

definition deck_d2 :: item where
  "deck_d2 =
     \<lparr>item_id = ''d2'', tags = Some [\<lparr>tag_value = ''y''\<rparr>], attributes = None,
      cards = Some [\<lparr>card_id = ''1''\<rparr>]\<rparr>"

text \<open>
  A service that answers 500 to every request for the item \<open>2\<close> and 204 to the others.
\<close>

definition refuses_2 :: "call list \<Rightarrow> request \<Rightarrow> string option \<times> response option \<times> jsval" where
  "refuses_2 tr r =
     (if url r = ''https://destination/api/cards/2'' then (None, Some (status 500), Text ''no'')
      else (None, Some (status 204), Undefined))"

text \<open>
  Two instances.  The origin holds the cards 1 and 2 and the decks d1 and d2, and answers
  500 to every \<open>POST\<close>.  The destination holds three cards and one deck at the start;
  it gives the cards it creates ids of its own (101 and 102).
\<close>

definition created :: "call list \<Rightarrow> bool" where
  "created tr =
     list_ex (\<lambda>c. case c of
                     Token t \<Rightarrow> False
                   | Views q \<Rightarrow> http_method q = ''POST'' \<and> url q = ''https://destination/api/cards'') tr"

definition two_instances :: "call list \<Rightarrow> request \<Rightarrow> string option \<times> response option \<times> jsval" where
  "two_instances tr r =
     (if predix_zone_id r = ''origin-zone''
      then (if http_method r = ''GET''
            then (if url r = ''https://origin/api/cards''
                  then (None, Some (status 200), Items [card_1, card_2])
                  else (None, Some (status 200), Items [deck_d1, deck_d2]))
            else (None, Some (status 500), Text ''OK''))
      else (if http_method r = ''GET''
            then (if url r = ''https://destination/api/cards''
                  then (None, Some (status 200),
                        (if created tr
                         then Items [card_1\<lparr>item_id := ''101''\<rparr>, card_2\<lparr>item_id := ''102''\<rparr>]
                         else Items [card_1, card_2, card_3]))
                  else (None, Some (status 200), Items [deck_d1]))
            else (None, Some (status 204), Undefined)))"

text \<open>The two instances, with a destination that refuses to delete its card 2.\<close>

definition keeps_card_2 :: "call list \<Rightarrow> request \<Rightarrow> string option \<times> response option \<times> jsval" where
  "keeps_card_2 tr r =
     (if http_method r = ''DELETE'' \<and> url r = ''https://destination/api/cards/2''
      then (None, Some (status 500), Text ''no'')
      else two_instances tr r)"

definition sample_config :: "bool \<Rightarrow> config" where
  "sample_config clear =
     \<lparr>originalViewsUrl = ''https://origin'',
      destinationViewsUrl = ''https://destination'',
      originalViewsZoneId = ''origin-zone'',
      destinationViewsZoneId = ''destination-zone'',
      originalUaaUrl = ''https://uaa-origin'',
      destinationUaaUrl = ''https://uaa-destination'',
      originalUaaCredentials = ''b3JpZ2lu'',
      destinationUaaCredentials = ''ZGVzdA=='',
      clearDestination = clear,
      originalCardsUrl = [],
      originalDecksUrl = [],
      destinationCardsUrl = [],
      destinationDecksUrl = [],
      originalToken = [],
      destinationToken = []\<rparr>"

section \<open>Status codes as text\<close>

lemma indexOf_lower: "- 1 \<le> indexOf s c"
  by (induction s) (auto simp: Let_def)

lemma indexOf_0: "(indexOf s c = 0) = (take 1 s = [c])"
proof (cases s)
  case Nil
  then show ?thesis by simp
next
  case (Cons x xs)
  have "- 1 \<le> indexOf xs c" by (rule indexOf_lower)
  with Cons show ?thesis by (auto simp: Let_def)
qed

lemma toString_samples:
  "toString 200 = ''200''" "toString 204 = ''204''" "toString 401 = ''401''"
  "toString 500 = ''500''"
  by (simp_all add: toString.simps digit_char_def)

lemma digit_char_2: "d < 10 \<Longrightarrow> (digit_char d = CHR ''2'') = (d = 2)"
proof -
  assume "d < 10"
  then have "d = 0 \<or> d = 1 \<or> d = 2 \<or> d = 3 \<or> d = 4 \<or> d = 5 \<or> d = 6 \<or> d = 7 \<or> d = 8 \<or> d = 9"
    by arith
  then show ?thesis by (auto simp: digit_char_def)
qed

text \<open>For the status codes of HTTP the test on the first digit is the range 200 to 299.\<close>

lemma three_digits:
  assumes "100 \<le> n" "n < 1000"
  shows "(take 1 (toString n) = ''2'') = (200 \<le> n \<and> n < 300)"
proof -
  have a: "\<not> n < 10" "\<not> n div 10 < 10" "n div 10 div 10 < 10"
    using assms by auto
  have "toString n =
          [digit_char (n div 10 div 10), digit_char (n div 10 mod 10), digit_char (n mod 10)]"
    using a
    by (simp add: toString.simps [of n] toString.simps [of "n div 10"]
          toString.simps [of "n div 10 div 10"])
  moreover have "(n div 10 div 10 = 2) = (200 \<le> n \<and> n < 300)"
    by auto
  ultimately show ?thesis
    using digit_char_2 [OF a(3)] by simp
qed

section \<open>requestToken settles\<close>

text \<open>
  Claim C4, as amended.  \<open>requestToken\<close> resolves, with the decoded token document,
  exactly when the transport reports no error, the response has status 200 and the body
  is a text that \<open>JSON.parse\<close> decodes.  It rejects exactly when the transport reports
  an error, no response, or a status other than 200, and the message then ends in the
  status code, or in \<open>unknown\<close> without a response.
\<close>

theorem requestToken_settles:
  assumes "uaa rt tr (token_options uaaUrl credentials) = (error, response, body')"
  shows "(\<forall>v. (fst (requestToken rt uaaUrl credentials tr) = Resolved v) =
              (error = None \<and> (\<exists>r. response = Some r \<and> statusCode r = 200) \<and>
               (\<exists>s. body' = Some s \<and> JSON_parse_token rt s = Some v))) \<and>
         ((error \<noteq> None \<or> response = None \<or> (\<exists>r. response = Some r \<and> statusCode r \<noteq> 200)) =
            (fst (requestToken rt uaaUrl credentials tr) =
               Rejected (TokenError (''Error retrieving token. Response returned status code '' @
                 (case response of Some r \<Rightarrow> toString (statusCode r) | None \<Rightarrow> ''unknown'')))))"
  using assms
  by (auto simp: requestToken_def requestToken_callback_def split: option.splits)

text \<open>
  The theorem at work: the sample service answers 200 with the token document, and a
  service that answers 401 is refused with a message that names 401.
\<close>

theorem requestToken_settles_witness:
  "fst (requestToken (runtime_of sample_uaa two_instances) ''https://uaa-origin'' ''b3JpZ2lu'' []) =
     Resolved \<lparr>access_token = Some ''abc''\<rparr> \<and>
   fst (requestToken
          (runtime_of (\<lambda>tr r. (None, Some (status 401), Some ''Unauthorized'')) two_instances)
          ''https://uaa-origin'' ''b3JpZ2lu'' []) =
     Rejected (TokenError ''Error retrieving token. Response returned status code 401'')"
  using requestToken_settles [of "runtime_of sample_uaa two_instances" "[]" "''https://uaa-origin''"
          "''b3JpZ2lu''" None "Some (status 200)" "Some ''{\"access_token\":\"abc\"}''"]
        requestToken_settles [of
          "runtime_of (\<lambda>tr r. (None, Some (status 401), Some ''Unauthorized'')) two_instances"
          "[]" "''https://uaa-origin''" "''b3JpZ2lu''" None "Some (status 401)"
          "Some ''Unauthorized''"]
  by (simp add: runtime_of_def sample_uaa_def sample_JSON_parse_token_def status_def
        toString_samples)

text \<open>
  Claim C4 as stated fails: no error and status 200, with an empty body.
  \<open>JSON.parse\<close> throws in the callback and the promise is never resolved.
\<close>

theorem requestToken_unparsed_counterexample:
  "fst (requestToken (runtime_of (\<lambda>tr r. (None, Some (status 200), Some [])) two_instances)
          ''https://uaa-origin'' ''b3JpZ2lu'' []) = Pending"
  by (simp add: requestToken_def requestToken_callback_def runtime_of_def status_def
        sample_JSON_parse_token_def)

section \<open>requestViewsData settles\<close>

lemma callback_resolved:
  "(\<exists>v. requestViewsData_callback rt u z m b error response responseBody = Resolved v) =
     (error = None \<and> (\<forall>r. response = Some r \<longrightarrow> take 1 (toString (statusCode r)) = ''2'') \<and>
      (\<forall>s. responseBody = Text s \<longrightarrow> s \<noteq> [] \<longrightarrow> JSON_parse rt s \<noteq> None))"
  by (auto simp: requestViewsData_callback_def indexOf_0 Let_def
        split: option.splits jsval.splits)

lemma callback_rejected:
  "(requestViewsData_callback rt u z m b error response responseBody = Rejected e) =
     ((error \<noteq> None \<or> (\<exists>r. response = Some r \<and> take 1 (toString (statusCode r)) \<noteq> ''2'')) \<and>
      e = RequestError u (method_or_GET m) z b
            (case response of Some r \<Rightarrow> toString (statusCode r) | None \<Rightarrow> ''unknown'')
            responseBody)"
  by (auto simp: requestViewsData_callback_def indexOf_0 Let_def
        split: option.splits jsval.splits)

lemma fst_requestViewsData:
  "views rt tr (views_options u z t m b) = (error, response, responseBody) \<Longrightarrow>
   fst (requestViewsData rt u z t m b tr) =
     requestViewsData_callback rt u z m b error response responseBody"
  by (simp add: requestViewsData_def)

lemma snd_requestViewsData:
  "snd (requestViewsData rt u z t m b tr) = tr @ [Views (views_options u z t m b)]"
  by (simp add: requestViewsData_def split: prod.splits)

text \<open>
  Claim C5, as amended.  \<open>requestViewsData\<close> resolves exactly when there is no
  transport error, the response, if there is one, has a status code whose decimal
  rendering starts with the digit 2, and the response body, if it is a non-empty
  string, is decoded by \<open>JSON.parse\<close>.  It rejects exactly when there is a transport
  error or a response whose status code does not start with 2, and the error then
  carries the URL, the method, the zone id, the request body, the status code (or
  \<open>unknown\<close>) and the response body.
\<close>

theorem requestViewsData_settles:
  assumes "views rt tr (views_options url' zoneId token m body') = (error, response, responseBody)"
  shows "((\<exists>v. fst (requestViewsData rt url' zoneId token m body' tr) = Resolved v) =
            (error = None \<and>
             (\<forall>r. response = Some r \<longrightarrow> take 1 (toString (statusCode r)) = ''2'') \<and>
             (\<forall>s. responseBody = Text s \<longrightarrow> s \<noteq> [] \<longrightarrow> JSON_parse rt s \<noteq> None))) \<and>
         ((\<exists>e. fst (requestViewsData rt url' zoneId token m body' tr) = Rejected e) =
            (error \<noteq> None \<or>
             (\<exists>r. response = Some r \<and> take 1 (toString (statusCode r)) \<noteq> ''2''))) \<and>
         (\<forall>e. fst (requestViewsData rt url' zoneId token m body' tr) = Rejected e \<longrightarrow>
              e = RequestError url' (method_or_GET m) zoneId body'
                    (case response of Some r \<Rightarrow> toString (statusCode r) | None \<Rightarrow> ''unknown'')
                    responseBody)"
  unfolding fst_requestViewsData [OF assms] callback_resolved callback_rejected
  by auto

text \<open>
  The theorem at work: a \<open>DELETE\<close> that the service answers with 500 is rejected
  with the parts of the request and of the answer, and a \<open>GET\<close> answered with 200
  resolves.
\<close>

theorem requestViewsData_settles_witness:
  "fst (requestViewsData (runtime_of sample_uaa refuses_2) ''https://destination/api/cards/2''
          ''destination-zone'' ''Bearer abc'' (Some ''DELETE'') Undefined []) =
     Rejected (RequestError ''https://destination/api/cards/2'' ''DELETE'' ''destination-zone''
                 Undefined ''500'' (Text ''no'')) \<and>
   (\<exists>v. fst (requestViewsData (runtime_of sample_uaa two_instances) ''https://origin/api/cards''
               ''origin-zone'' ''Bearer abc'' None Undefined []) = Resolved v)"
  using requestViewsData_settles [of "runtime_of sample_uaa refuses_2" "[]"
          "''https://destination/api/cards/2''" "''destination-zone''" "''Bearer abc''"
          "Some ''DELETE''" Undefined None "Some (status 500)" "Text ''no''"]
        requestViewsData_settles [of "runtime_of sample_uaa two_instances" "[]"
          "''https://origin/api/cards''" "''origin-zone''" "''Bearer abc''"
          None Undefined None "Some (status 200)" "Items [card_1, card_2]"]
  by (auto simp: runtime_of_def refuses_2_def two_instances_def views_options_def
        method_or_GET_def status_def toString_samples)

text \<open>
  Claim C5 as stated fails: with neither an error nor a response there is no status
  code, and the promise resolves.
\<close>

theorem requestViewsData_no_status_counterexample:
  "fst (requestViewsData (always (None, None, Undefined)) ''https://origin/api/cards''
          ''origin-zone'' ''Bearer abc'' None Undefined []) =
     Resolved \<lparr>res_body = Undefined, res_headers = []\<rparr>"
  by (simp add: requestViewsData_def requestViewsData_callback_def always_def runtime_of_def)

text \<open>
  Claim C10, as amended.  When the callback reports neither an error nor a response,
  \<open>requestViewsData\<close> does not reject.  It resolves with no headers and the body
  handed through when the body is not a non-empty string; a non-empty string is
  decoded first, and the promise resolves with the decoded value when there is one.
\<close>

theorem requestViewsData_no_response:
  assumes "views rt tr (views_options url' zoneId token m body') = (None, None, responseBody)"
  shows "(\<forall>e. fst (requestViewsData rt url' zoneId token m body' tr) \<noteq> Rejected e) \<and>
         ((\<forall>s. responseBody = Text s \<longrightarrow> s = []) \<longrightarrow>
            fst (requestViewsData rt url' zoneId token m body' tr) =
              Resolved \<lparr>res_body = responseBody, res_headers = []\<rparr>) \<and>
         (\<forall>s v. responseBody = Text s \<longrightarrow> s \<noteq> [] \<longrightarrow> JSON_parse rt s = Some v \<longrightarrow>
            fst (requestViewsData rt url' zoneId token m body' tr) =
              Resolved \<lparr>res_body = v, res_headers = []\<rparr>)"
  unfolding fst_requestViewsData [OF assms]
  by (auto simp: requestViewsData_callback_def split: jsval.splits option.splits)

text \<open>The theorem at work: a decoded list is handed through, the text \<open>[]\<close> is decoded.\<close>

theorem requestViewsData_no_response_witness:
  "fst (requestViewsData (always (None, None, Items [card_1])) ''https://origin/api/cards''
          ''origin-zone'' ''Bearer abc'' None Undefined []) =
     Resolved \<lparr>res_body = Items [card_1], res_headers = []\<rparr> \<and>
   fst (requestViewsData (always (None, None, Text ''[]'')) ''https://origin/api/cards''
          ''origin-zone'' ''Bearer abc'' None Undefined []) =
     Resolved \<lparr>res_body = Items [], res_headers = []\<rparr>"
  using requestViewsData_no_response [of "always (None, None, Items [card_1])" "[]"
          "''https://origin/api/cards''" "''origin-zone''" "''Bearer abc''" None Undefined
          "Items [card_1]"]
        requestViewsData_no_response [of "always (None, None, Text ''[]'')" "[]"
          "''https://origin/api/cards''" "''origin-zone''" "''Bearer abc''" None Undefined
          "Text ''[]''"]
  by (simp add: always_def runtime_of_def sample_JSON_parse_def)

text \<open>
  Claim C10 as stated fails: neither an error nor a response, and a body that is a
  text but not JSON.  \<open>JSON.parse\<close> throws in the callback and the promise is never
  resolved.
\<close>

theorem requestViewsData_no_response_counterexample:
  "fst (requestViewsData (always (None, None, Text ''OK'')) ''https://origin/api/cards''
          ''origin-zone'' ''Bearer abc'' None Undefined []) = Pending"
  by (simp add: requestViewsData_def requestViewsData_callback_def always_def runtime_of_def
        sample_JSON_parse_def)

section \<open>The bulk operations: calls and outcome\<close>

lemma snd_deleteData_each:
  "snd (deleteData_each rt xs u z t tr) = tr @ map (delete_call u z t) xs"
  by (induction xs arbitrary: tr) (simp_all add: split_beta snd_requestViewsData delete_call_def)

lemma length_deleteData_each:
  "length (fst (deleteData_each rt xs u z t tr)) = length xs"
  by (induction xs arbitrary: tr) (simp_all add: split_beta)

lemma nth_deleteData_each:
  "i < length xs \<Longrightarrow>
   fst (deleteData_each rt xs u z t tr) ! i =
     fst (requestViewsData rt (u @ ''/'' @ item_id (xs ! i)) z t (Some ''DELETE'') Undefined
            (tr @ map (delete_call u z t) (take i xs)))"
proof (induction xs arbitrary: tr i)
  case Nil
  then show ?case by simp
next
  case (Cons x xs)
  show ?case
  proof (cases i)
    case 0
    then show ?thesis by (simp add: split_beta)
  next
    case (Suc j)
    with Cons.prems have "j < length xs" by simp
    from Cons.IH [OF this] Suc show ?thesis
      by (simp add: split_beta snd_requestViewsData delete_call_def)
  qed
qed

lemma snd_addTags_each:
  "snd (addTags_each rt u xs z t tr) = tr @ map (tag_call u z t) (filter has_tags xs)"
  by (induction xs arbitrary: tr) (simp_all add: split_beta snd_requestViewsData tag_call_def)

lemma addTags_each_filter:
  "addTags_each rt u (filter has_tags xs) z t tr = addTags_each rt u xs z t tr"
  by (induction xs arbitrary: tr) (simp_all add: split_beta)

lemma length_addTags_each:
  "length (fst (addTags_each rt u xs z t tr)) = length (filter has_tags xs)"
  by (induction xs arbitrary: tr) (simp_all add: split_beta)

lemma nth_addTags_each_tagged:
  "list_all has_tags xs \<Longrightarrow> i < length xs \<Longrightarrow>
   fst (addTags_each rt u xs z t tr) ! i =
     fst (requestViewsData rt (u @ ''/'' @ item_id (xs ! i) @ ''/tags'') z t (Some ''POST'')
            (tag_values (xs ! i)) (tr @ map (tag_call u z t) (take i xs)))"
proof (induction xs arbitrary: tr i)
  case Nil
  then show ?case by simp
next
  case (Cons x xs)
  show ?case
  proof (cases i)
    case 0
    with Cons.prems show ?thesis by (simp add: split_beta)
  next
    case (Suc j)
    with Cons.prems have "j < length xs" "list_all has_tags xs" "has_tags x" by simp_all
    from Cons.IH [OF this(2) this(1)] Suc this(3) show ?thesis
      by (simp add: split_beta snd_requestViewsData tag_call_def)
  qed
qed

lemma nth_addTags_each:
  assumes "i < length (filter has_tags xs)"
  shows "fst (addTags_each rt u xs z t tr) ! i =
           fst (requestViewsData rt (u @ ''/'' @ item_id (filter has_tags xs ! i) @ ''/tags'') z t
                  (Some ''POST'') (tag_values (filter has_tags xs ! i))
                  (tr @ map (tag_call u z t) (take i (filter has_tags xs))))"
proof -
  have "list_all has_tags (filter has_tags xs)"
    by (simp add: list_all_iff)
  from nth_addTags_each_tagged [OF this assms, of rt u z t tr] show ?thesis
    by (simp add: addTags_each_filter)
qed

lemma then_resolve_not_rejected: "then_resolve p \<noteq> Rejected e"
  by (simp add: then_resolve_def split: promise.splits)

lemma Promise_all_resolved: "resolved (Promise_all ps) = list_all resolved ps"
  by (induction ps) (auto split: promise.splits)

lemma then_resolve_resolved:
  "(then_resolve (Promise_all ps) = Resolved ()) = list_all resolved ps"
  using Promise_all_resolved [of ps]
  by (cases "Promise_all ps") (simp_all add: then_resolve_def)

lemma then_resolve_cases:
  "then_resolve (Promise_all ps) = (if list_all resolved ps then Resolved () else Pending)"
  using Promise_all_resolved [of ps]
  by (cases "Promise_all ps") (simp_all add: then_resolve_def)

lemma deleteData_Items:
  "deleteData rt (Items xs) u z t k tr =
     (then_resolve (Promise_all (fst (deleteData_each rt xs u z t tr))),
      tr @ map (delete_call u z t) xs)"
  using snd_deleteData_each [of rt xs u z t tr]
  by (simp add: deleteData_def split_beta)

lemma addTags_Items:
  "addTags rt u (Items xs) z t tr =
     (then_resolve (Promise_all (fst (addTags_each rt u xs z t tr))),
      tr @ map (tag_call u z t) (filter has_tags xs))"
  using snd_addTags_each [of rt u xs z t tr]
  by (simp add: addTags_def split_beta)

text \<open>
  Claim C6.  For every list, \<open>addTags\<close> issues, in the order of the list, one
  \<open>POST\<close> to \<open>{url}/{item.id}/tags\<close> with the item's tag values for each item whose
  tag list is non-empty, and nothing else.  The items without tags change nothing: the
  result is that of the list without them, it is never a rejection, and a list of
  items without tags resolves with no call.
\<close>

theorem addTags_calls:
  "snd (addTags rt url' (Items list') zoneId token tr) =
     tr @ map (\<lambda>x. Views \<lparr>url = url' @ ''/'' @ item_id x @ ''/tags'', predix_zone_id = zoneId,
                          authorization = token, http_method = ''POST'', json = True,
                          body = TagValues (map tag_value (the (tags x)))\<rparr>)
            (filter has_tags list') \<and>
   addTags rt url' (Items list') zoneId token tr =
     addTags rt url' (Items (filter has_tags list')) zoneId token tr \<and>
   (\<forall>e. fst (addTags rt url' (Items list') zoneId token tr) \<noteq> Rejected e) \<and>
   (list_all (\<lambda>x. \<not> has_tags x) list' \<longrightarrow>
      addTags rt url' (Items list') zoneId token tr = (Resolved (), tr))"
proof -
  have calls:
    "map (tag_call url' zoneId token) (filter has_tags list') =
     map (\<lambda>x. Views \<lparr>url = url' @ ''/'' @ item_id x @ ''/tags'', predix_zone_id = zoneId,
                     authorization = token, http_method = ''POST'', json = True,
                     body = TagValues (map tag_value (the (tags x)))\<rparr>)
       (filter has_tags list')"
    by (rule map_cong)
      (auto simp: tag_call_def views_options_def method_or_GET_def tag_values_def has_tags_def
         split: option.splits)
  have same:
    "addTags rt url' (Items list') zoneId token tr =
     addTags rt url' (Items (filter has_tags list')) zoneId token tr"
    by (simp add: addTags_def addTags_each_filter)
  have none: "list_all (\<lambda>x. \<not> has_tags x) list' \<longrightarrow>
      addTags rt url' (Items list') zoneId token tr = (Resolved (), tr)"
  proof
    assume "list_all (\<lambda>x. \<not> has_tags x) list'"
    then have "filter has_tags list' = []"
      by (induction list') auto
    with same show "addTags rt url' (Items list') zoneId token tr = (Resolved (), tr)"
      by (simp add: addTags_def then_resolve_def)
  qed
  have issued: "snd (addTags rt url' (Items list') zoneId token tr) =
     tr @ map (\<lambda>x. Views \<lparr>url = url' @ ''/'' @ item_id x @ ''/tags'', predix_zone_id = zoneId,
                          authorization = token, http_method = ''POST'', json = True,
                          body = TagValues (map tag_value (the (tags x)))\<rparr>)
            (filter has_tags list')"
    using calls by (simp add: addTags_Items)
  have never: "\<forall>e. fst (addTags rt url' (Items list') zoneId token tr) \<noteq> Rejected e"
    by (simp add: addTags_Items then_resolve_not_rejected)
  from issued same never none show ?thesis
    by (intro conjI)
qed

text \<open>
  The theorem at work, on the cards of the round-trip scenario: one call, for card 1;
  and on card 2 alone, whose tag list is empty: no call, resolved.
\<close>

theorem addTags_calls_witness:
  "snd (addTags (runtime_of sample_uaa two_instances) ''https://destination/api/cards''
          (Items [card_1, card_2]) ''destination-zone'' ''Bearer abc'' []) =
     [Views \<lparr>url = ''https://destination/api/cards/1/tags'', predix_zone_id = ''destination-zone'',
             authorization = ''Bearer abc'', http_method = ''POST'', json = True,
             body = TagValues [''x'']\<rparr>] \<and>
   addTags (runtime_of sample_uaa two_instances) ''https://destination/api/cards''
     (Items [card_2]) ''destination-zone'' ''Bearer abc'' [] = (Resolved (), [])"
  using addTags_calls [of "runtime_of sample_uaa two_instances" "''https://destination/api/cards''"
          "[card_1, card_2]" "''destination-zone''" "''Bearer abc''" "[]"]
        addTags_calls [of "runtime_of sample_uaa two_instances" "''https://destination/api/cards''"
          "[card_2]" "''destination-zone''" "''Bearer abc''" "[]"]
  by (simp add: has_tags_def card_1_def card_2_def addTags_def then_resolve_def)

text \<open>
  Claim C8, as amended.  For every list, \<open>deleteData\<close> and \<open>addTags\<close> resolve exactly
  when every action they launched has resolved; the action for the i-th item is the
  request issued after the calls for the items before it.  For the empty list both
  resolve at once and issue no call.
\<close>

theorem bulk_resolves:
  "((fst (deleteData rt (Items xs) u z t k tr) = Resolved ()) =
      (\<forall>i<length xs.
         resolved (fst (requestViewsData rt (u @ ''/'' @ item_id (xs ! i)) z t (Some ''DELETE'')
                          Undefined (tr @ map (delete_call u z t) (take i xs)))))) \<and>
   ((fst (addTags rt u (Items xs) z t tr) = Resolved ()) =
      (\<forall>i<length (filter has_tags xs).
         resolved (fst (requestViewsData rt (u @ ''/'' @ item_id (filter has_tags xs ! i) @ ''/tags'')
                          z t (Some ''POST'') (tag_values (filter has_tags xs ! i))
                          (tr @ map (tag_call u z t) (take i (filter has_tags xs))))))) \<and>
   deleteData rt (Items []) u z t k tr = (Resolved (), tr) \<and>
   addTags rt u (Items []) z t tr = (Resolved (), tr)"
proof -
  have d: "(fst (deleteData rt (Items xs) u z t k tr) = Resolved ()) =
      (\<forall>i<length xs.
         resolved (fst (requestViewsData rt (u @ ''/'' @ item_id (xs ! i)) z t (Some ''DELETE'')
                          Undefined (tr @ map (delete_call u z t) (take i xs)))))"
    by (simp add: deleteData_Items then_resolve_resolved list_all_length length_deleteData_each
          nth_deleteData_each)
  have a: "(fst (addTags rt u (Items xs) z t tr) = Resolved ()) =
      (\<forall>i<length (filter has_tags xs).
         resolved (fst (requestViewsData rt (u @ ''/'' @ item_id (filter has_tags xs ! i) @ ''/tags'')
                          z t (Some ''POST'') (tag_values (filter has_tags xs ! i))
                          (tr @ map (tag_call u z t) (take i (filter has_tags xs))))))"
    by (simp add: addTags_Items then_resolve_resolved list_all_length length_addTags_each
          nth_addTags_each)
  have e: "deleteData rt (Items []) u z t k tr = (Resolved (), tr)"
          "addTags rt u (Items []) z t tr = (Resolved (), tr)"
    by (simp_all add: deleteData_def addTags_def then_resolve_def)
  from d a e show ?thesis by blast
qed

text \<open>The theorem at work: the service deletes the cards 1 and 3, and the batch resolves.\<close>

theorem bulk_resolves_witness:
  "deleteData (runtime_of sample_uaa refuses_2) (Items [card_1, card_3])
     ''https://destination/api/cards'' ''destination-zone'' ''Bearer abc'' ''card'' [] =
   (Resolved (),
    [delete_call ''https://destination/api/cards'' ''destination-zone'' ''Bearer abc'' card_1,
     delete_call ''https://destination/api/cards'' ''destination-zone'' ''Bearer abc'' card_3]) \<and>
   deleteData (runtime_of sample_uaa refuses_2) (Items [])
     ''https://destination/api/cards'' ''destination-zone'' ''Bearer abc'' ''card'' [] =
   (Resolved (), [])"
  using bulk_resolves [of "runtime_of sample_uaa refuses_2" "[card_1, card_3]"
          "''https://destination/api/cards''" "''destination-zone''" "''Bearer abc''" "''card''" "[]"]
        bulk_resolves [of "runtime_of sample_uaa refuses_2" "[]"
          "''https://destination/api/cards''" "''destination-zone''" "''Bearer abc''" "''card''" "[]"]
  by (simp add: deleteData_Items then_resolve_def requestViewsData_def
        requestViewsData_callback_def runtime_of_def refuses_2_def views_options_def
        method_or_GET_def status_def toString_samples card_1_def card_3_def)

text \<open>
  Claim C8 as stated fails: the one action launched for card 2 has settled, by
  rejection, and the batch does not resolve.
\<close>

theorem bulk_settled_counterexample:
  "fst (deleteData_each (runtime_of sample_uaa refuses_2) [card_2]
          ''https://destination/api/cards'' ''destination-zone'' ''Bearer abc'' []) =
     [Rejected (RequestError ''https://destination/api/cards/2'' ''DELETE'' ''destination-zone''
                  Undefined ''500'' (Text ''no''))] \<and>
   fst (deleteData (runtime_of sample_uaa refuses_2) (Items [card_2])
          ''https://destination/api/cards'' ''destination-zone'' ''Bearer abc'' ''card'' []) =
     Pending"
  by (simp add: deleteData_Items then_resolve_def requestViewsData_def
        requestViewsData_callback_def runtime_of_def refuses_2_def views_options_def
        method_or_GET_def status_def toString_samples card_2_def)

text \<open>
  Claim C1 at a failing input: three cards, of which the service refuses to delete the
  second.  All three calls are issued and the first and third resolve, but the promise
  of \<open>deleteData\<close> is neither resolved nor rejected: \<open>reject\<close> is never called.
\<close>

theorem deleteData_one_failure:
  "deleteData (runtime_of sample_uaa refuses_2) (Items [card_1, card_2, card_3])
     ''https://destination/api/cards'' ''destination-zone'' ''Bearer abc'' ''card'' [] =
   (Pending,
    [delete_call ''https://destination/api/cards'' ''destination-zone'' ''Bearer abc'' card_1,
     delete_call ''https://destination/api/cards'' ''destination-zone'' ''Bearer abc'' card_2,
     delete_call ''https://destination/api/cards'' ''destination-zone'' ''Bearer abc'' card_3]) \<and>
   map resolved (fst (deleteData_each (runtime_of sample_uaa refuses_2) [card_1, card_2, card_3]
     ''https://destination/api/cards'' ''destination-zone'' ''Bearer abc'' [])) =
   [True, False, True]"
  by (simp add: deleteData_Items then_resolve_def requestViewsData_def
        requestViewsData_callback_def runtime_of_def refuses_2_def views_options_def
        method_or_GET_def status_def toString_samples card_1_def card_2_def card_3_def)

section \<open>The order of the calls\<close>

lemma views_requests_append: "views_requests (a @ b) = views_requests a @ views_requests b"
  by (induction a rule: views_requests.induct) simp_all

lemma views_requests_delete_calls:
  "views_requests (map (delete_call u z t) xs) =
     map (\<lambda>x. \<lparr>url = u @ ''/'' @ item_id x, predix_zone_id = z, authorization = t,
               http_method = ''DELETE'', json = False, body = Null\<rparr>) xs"
  by (induction xs) (simp_all add: delete_call_def views_options_def method_or_GET_def)

lemma views_requests_tag_calls:
  "list_all (\<lambda>q. http_method q = ''POST'') (views_requests (map (tag_call u z t) xs))"
  by (induction xs) (simp_all add: tag_call_def views_options_def method_or_GET_def)

lemma issues_only_append: "issues_only P tr (tr @ ext) = list_all P (views_requests ext)"
  by (simp add: issues_only_def)

lemma issues_only_refl: "issues_only P tr tr"
  by (simp add: issues_only_def)

lemma issues_only_ext: "issues_only P tr tr' \<Longrightarrow> \<exists>ext. tr' = tr @ ext \<and> list_all P (views_requests ext)"
  unfolding issues_only_def by (metis append_take_drop_id)

lemma issues_only_trans:
  assumes "issues_only P a b" "issues_only P b c"
  shows "issues_only P a c"
proof -
  from issues_only_ext [OF assms(1)] obtain e1 where e1: "b = a @ e1" "list_all P (views_requests e1)"
    by blast
  from issues_only_ext [OF assms(2)] obtain e2 where e2: "c = b @ e2" "list_all P (views_requests e2)"
    by blast
  have "c = a @ (e1 @ e2)" using e1 e2 by simp
  moreover have "list_all P (views_requests (e1 @ e2))"
    using e1 e2 by (simp add: views_requests_append)
  ultimately show ?thesis using issues_only_append [of P a "e1 @ e2"] by simp
qed

lemma snd_yield:
  "snd (yield p k) = (case fst p of Resolved v \<Rightarrow> snd (k v (snd p)) | Rejected e \<Rightarrow> snd p | Pending \<Rightarrow> snd p)"
  by (cases p) (simp add: yield_def split: promise.splits)

lemma yield_Resolved: "yield (Resolved v, tr) k = k v tr"
  by (simp add: yield_def)


lemma issues_only_yield:
  assumes "issues_only P tr (snd p)" "\<And>v tr'. issues_only P tr' (snd (k v tr'))"
  shows "issues_only P tr (snd (yield p k))"
proof (cases "fst p")
  case (Resolved v)
  then have "snd (yield p k) = snd (k v (snd p))" by (simp add: snd_yield)
  with issues_only_trans [OF assms(1) assms(2) [of "snd p" v]] show ?thesis by simp
qed (use assms(1) in \<open>simp_all add: snd_yield\<close>)

lemma issues_only_requestViewsData:
  "P (views_options u z t m b) \<Longrightarrow> issues_only P tr (snd (requestViewsData rt u z t m b tr))"
  by (simp add: snd_requestViewsData issues_only_append)

lemma snd_deleteData:
  "snd (deleteData rt b u z t k tr) = tr @ map (delete_call u z t) (each_elements b)"
  by (cases b) (simp_all add: deleteData_def split_beta snd_deleteData_each)

lemma snd_addTags:
  "snd (addTags rt u b z t tr) = tr @ map (tag_call u z t) (filter has_tags (each_elements b))"
  by (cases b) (simp_all add: addTags_def split_beta snd_addTags_each)

lemma issues_only_addTags:
  "issues_only (\<lambda>q. http_method q \<noteq> ''DELETE'') tr (snd (addTags rt u b z t tr))"
proof -
  have "list_all (\<lambda>q. http_method q \<noteq> ''DELETE'')
          (views_requests (map (tag_call u z t) (filter has_tags (each_elements b))))"
    using views_requests_tag_calls [of u z t "filter has_tags (each_elements b)"]
    by (simp add: list_all_iff)
  then show ?thesis by (simp add: snd_addTags issues_only_append)
qed

lemma method_or_GET_simps:
  "method_or_GET None = ''GET''" "method_or_GET (Some ''POST'') = ''POST''"
  "method_or_GET (Some ''DELETE'') = ''DELETE''"
  by (simp_all add: method_or_GET_def)

lemma http_method_views_options: "http_method (views_options u z t m b) = method_or_GET m"
  by (simp add: views_options_def)

lemma issues_only_migrate_cards:
  "issues_only (\<lambda>q. http_method q \<noteq> ''DELETE'') tr (snd (migrate_cards rt config tr))"
  unfolding migrate_cards_def
  by (intro issues_only_yield issues_only_requestViewsData issues_only_addTags)
     (simp_all add: http_method_views_options method_or_GET_simps issues_only_refl
        issues_only_yield issues_only_requestViewsData issues_only_addTags split: option.splits)

lemma issues_only_migrate_decks:
  "issues_only (\<lambda>q. http_method q \<noteq> ''DELETE'') tr (snd (migrate_decks rt config tr))"
  unfolding migrate_decks_def
  by (intro issues_only_yield issues_only_requestViewsData issues_only_addTags)
     (simp_all add: http_method_views_options method_or_GET_simps issues_only_refl
        issues_only_yield issues_only_requestViewsData issues_only_addTags split: option.splits)

lemma snd_associate_origin_each:
  "snd (associate_origin_each rt config ds tr) =
     tr @ map (origin_association_call config) (filter has_attributes_cards ds)"
  by (induction ds arbitrary: tr)
     (simp_all add: split_beta snd_requestViewsData origin_association_call_def)

lemma snd_associate_destination_each:
  "snd (associate_destination_each rt config ds tr) =
     tr @ map (destination_association_call config) (filter has_cards ds)"
  by (induction ds arbitrary: tr)
     (simp_all add: split_beta snd_requestViewsData destination_association_call_def)

lemma snd_associate_cards:
  "snd (associate_cards rt config decks tr) =
     tr @ map (origin_association_call config) (filter has_attributes_cards (each_elements decks)) @
          map (destination_association_call config) (filter has_cards (each_elements decks))"
  by (simp add: associate_cards_def split_beta snd_associate_destination_each
        snd_associate_origin_each)

lemma association_calls_post:
  "list_all (\<lambda>q. http_method q = ''POST'')
     (views_requests (map (origin_association_call config) xs))"
  "list_all (\<lambda>q. http_method q = ''POST'')
     (views_requests (map (destination_association_call config) ys))"
  by (induction xs, simp_all add: origin_association_call_def views_options_def method_or_GET_def)
     (induction ys, simp_all add: destination_association_call_def views_options_def
        method_or_GET_def)

lemma issues_only_associate_cards:
  "issues_only (\<lambda>q. http_method q \<noteq> ''DELETE'') tr (snd (associate_cards rt config decks tr))"
proof -
  have "list_all (\<lambda>q. http_method q \<noteq> ''DELETE'')
          (views_requests
             (map (origin_association_call config)
                (filter has_attributes_cards (each_elements decks)) @
              map (destination_association_call config) (filter has_cards (each_elements decks))))"
    using association_calls_post(1) [of config "filter has_attributes_cards (each_elements decks)"]
          association_calls_post(2) [of config "filter has_cards (each_elements decks)"]
    by (auto simp: views_requests_append list_all_iff)
  then show ?thesis
    by (simp add: snd_associate_cards issues_only_append)
qed

text \<open>The stages after the clearing of the destination issue no \<open>DELETE\<close>.\<close>

lemma issues_only_migration:
  "issues_only (\<lambda>q. http_method q \<noteq> ''DELETE'') tr
     (snd (yield (migrate_cards rt config tr) (\<lambda>u tr4.
           yield (migrate_decks rt config tr4) (\<lambda>decks tr5.
           associate_cards rt config decks tr5))))"
  by (intro issues_only_yield issues_only_migrate_cards issues_only_migrate_decks
        issues_only_associate_cards)

lemma snd_requestToken:
  "snd (requestToken rt u cr tr) = tr @ [Token (token_options u cr)]"
  by (simp add: requestToken_def split_beta)

lemma requestToken_Resolved:
  "fst (requestToken rt u cr tr) = Resolved v \<Longrightarrow>
   requestToken rt u cr tr = (Resolved v, tr @ [token_call u cr])"
  by (simp add: prod_eq_iff snd_requestToken token_call_def)

lemma requestViewsData_Resolved:
  "fst (requestViewsData rt u z t None Undefined tr) = Resolved r \<Longrightarrow>
   requestViewsData rt u z t None Undefined tr = (Resolved r, tr @ [get_call u z t])"
  by (simp add: prod_eq_iff snd_requestViewsData get_call_def)

lemma yield_stops:
  assumes "\<And>v. fst p \<noteq> Resolved v"
  shows "snd (yield p k) = snd p \<and> (\<forall>w. fst (yield p k) \<noteq> Resolved w)"
proof -
  obtain q tr where p: "p = (q, tr)" by (cases p)
  show ?thesis
  proof (cases q)
    case (Resolved v)
    with assms [of v] p show ?thesis by simp
  qed (simp_all add: p yield_def)
qed

lemma snd_yield_stops: "(\<And>v. fst p \<noteq> Resolved v) \<Longrightarrow> snd (yield p k) = snd p"
  using yield_stops [of p k] by blast

lemma fst_yield_stops: "(\<And>v. fst p \<noteq> Resolved v) \<Longrightarrow> fst (yield p k) \<noteq> Resolved w"
  using yield_stops [of p k] by blast

lemma delete_calls_delete:
  "list_all (\<lambda>q. http_method q = ''DELETE'') (views_requests (map (delete_call u z t) xs))"
  by (simp add: views_requests_delete_calls list_all_iff)

lemma get_calls_get:
  "views_requests (get_call u z t # tr) = views_options u z t None Undefined # views_requests tr"
  "http_method (views_options u z t None Undefined) = ''GET''"
  by (simp_all add: get_call_def views_options_def method_or_GET_def)

lemma token_calls_none: "views_requests (token_call u cr # tr) = views_requests tr"
  by (simp add: token_call_def)

text \<open>
  The promise of \<open>deleteData\<close> resolves exactly when its argument has a length and
  every \<open>DELETE\<close> it issued has resolved.
\<close>

lemma list_all_upt: "list_all P [0..<n] = (\<forall>i<n. P i)"
  by (auto simp: list_all_iff)

lemma deleteData_resolved:
  "(fst (deleteData rt b u z t k tr) = Resolved ()) =
     (js_length b \<noteq> None \<and> deleted rt u z t tr (each_elements b))"
proof (cases "js_length b")
  case None
  then show ?thesis by (simp add: deleteData_def)
next
  case (Some n)
  then show ?thesis
    by (simp add: deleteData_def split_beta then_resolve_resolved list_all_length
          length_deleteData_each nth_deleteData_each deleted_def list_all_upt)
qed

text \<open>
  Two deletions in a row, and a continuation that issues no \<open>DELETE\<close>: the second
  batch is issued only when the first has resolved, and the continuation runs only when
  the second has.
\<close>

lemma delete_cards_then_decks:
  assumes M: "\<And>tr. issues_only (\<lambda>q. http_method q \<noteq> ''DELETE'') tr (snd (M () tr))"
  shows "\<exists>post.
     snd (yield (yield (deleteData rt b1 cu z t k1 tr0)
                   (\<lambda>u tr3. deleteData rt b2 du z t k2 tr3)) M) =
       tr0 @ map (delete_call cu z t) (each_elements b1) @
       (if js_length b1 \<noteq> None \<and> deleted rt cu z t tr0 (each_elements b1)
        then map (delete_call du z t) (each_elements b2) @ post else []) \<and>
     list_all (\<lambda>q. http_method q \<noteq> ''DELETE'') (views_requests post) \<and>
     (post \<noteq> [] \<longrightarrow>
        js_length b2 \<noteq> None \<and>
        deleted rt du z t (tr0 @ map (delete_call cu z t) (each_elements b1)) (each_elements b2))"
proof -
  let ?cards = "each_elements b1" and ?decks = "each_elements b2"
  let ?tr1 = "tr0 @ map (delete_call cu z t) ?cards"
  let ?tr2 = "?tr1 @ map (delete_call du z t) ?decks"
  let ?d1 = "deleteData rt b1 cu z t k1 tr0"
  let ?d2 = "deleteData rt b2 du z t k2 ?tr1"
  let ?K = "\<lambda>(u::unit) tr3. deleteData rt b2 du z t k2 tr3"
  let ?done1 = "js_length b1 \<noteq> None \<and> deleted rt cu z t tr0 ?cards"
  let ?done2 = "js_length b2 \<noteq> None \<and> deleted rt du z t ?tr1 ?decks"
  have s1: "snd ?d1 = ?tr1" by (simp add: snd_deleteData)
  have s2: "snd ?d2 = ?tr2" by (simp add: snd_deleteData)
  have f1: "(fst ?d1 = Resolved ()) = ?done1" by (rule deleteData_resolved)
  have f2: "(fst ?d2 = Resolved ()) = ?done2" by (rule deleteData_resolved)
  show ?thesis
  proof (cases ?done1)
    case True
    with f1 s1 have d1: "?d1 = (Resolved (), ?tr1)" by (simp add: prod_eq_iff)
    have stage: "yield ?d1 ?K = ?d2" unfolding d1 yield_Resolved ..
    show ?thesis
    proof (cases ?done2)
      case done2: True
      with f2 s2 have d2: "?d2 = (Resolved (), ?tr2)" by (simp add: prod_eq_iff)
      from issues_only_ext [OF M [of ?tr2]]
      obtain post where post: "snd (M () ?tr2) = ?tr2 @ post"
          "list_all (\<lambda>q. http_method q \<noteq> ''DELETE'') (views_requests post)"
        by blast
      have "snd (yield (yield ?d1 ?K) M) = ?tr2 @ post"
        unfolding stage d2 yield_Resolved by (rule post(1))
      with True done2 post(2) show ?thesis
        by (intro exI [of _ post]) simp
    next
      case False
      with f2 have "\<And>v. fst ?d2 \<noteq> Resolved v" by simp
      from yield_stops [OF this, of M] have "snd (yield (yield ?d1 ?K) M) = ?tr2"
        unfolding stage s2 by simp
      with True show ?thesis
        by (intro exI [of _ "[]"]) simp
    qed
  next
    case False
    with f1 have "\<And>v. fst ?d1 \<noteq> Resolved v" by simp
    from yield_stops [OF this, of ?K]
    have "snd (yield ?d1 ?K) = ?tr1" "\<And>w. fst (yield ?d1 ?K) \<noteq> Resolved w"
      unfolding s1 by simp_all
    from yield_stops [OF this(2), of M] this(1)
    have trace: "snd (yield (yield ?d1 ?K) M) = ?tr1" by simp
    from False have e: "(if ?done1 then map (delete_call du z t) ?decks @ [] else []) = []"
      by (rule if_not_P)
    show ?thesis
      apply (intro exI [of _ "[]"])
      unfolding e using trace by simp
  qed
qed

text \<open>
  The clearing stage once both lists are fetched, and the stage when a fetch fails.
\<close>

lemma clear_destination_fetched:
  assumes "fst (requestViewsData rt (destinationCardsUrl config) (destinationViewsZoneId config)
                  (destinationToken config) None Undefined tr) = Resolved r1"
    and "fst (requestViewsData rt (destinationDecksUrl config) (destinationViewsZoneId config)
                (destinationToken config) None Undefined
                (tr @ [get_call (destinationCardsUrl config) (destinationViewsZoneId config)
                         (destinationToken config)])) = Resolved r2"
  shows "clear_destination rt config tr =
           yield (deleteData rt (res_body r1) (destinationCardsUrl config)
                    (destinationViewsZoneId config) (destinationToken config) ''card''
                    (tr @ [get_call (destinationCardsUrl config) (destinationViewsZoneId config)
                             (destinationToken config),
                           get_call (destinationDecksUrl config) (destinationViewsZoneId config)
                             (destinationToken config)]))
             (\<lambda>u tr3. deleteData rt (res_body r2) (destinationDecksUrl config)
                          (destinationViewsZoneId config) (destinationToken config) ''deck'' tr3)"
  unfolding clear_destination_def requestViewsData_Resolved [OF assms(1)] yield_Resolved
    requestViewsData_Resolved [OF assms(2)] by simp

lemma clear_then_migrate:
  assumes "fst (requestViewsData rt (destinationCardsUrl config) (destinationViewsZoneId config)
                  (destinationToken config) None Undefined tr) = Resolved r1"
    and "fst (requestViewsData rt (destinationDecksUrl config) (destinationViewsZoneId config)
                (destinationToken config) None Undefined
                (tr @ [get_call (destinationCardsUrl config) (destinationViewsZoneId config)
                         (destinationToken config)])) = Resolved r2"
  shows "\<exists>post.
     snd (yield (clear_destination rt config tr) (\<lambda>u tr3.
          yield (migrate_cards rt config tr3) (\<lambda>u tr4.
          yield (migrate_decks rt config tr4) (\<lambda>decks tr5.
          associate_cards rt config decks tr5)))) =
       (tr @ [get_call (destinationCardsUrl config) (destinationViewsZoneId config)
                (destinationToken config),
              get_call (destinationDecksUrl config) (destinationViewsZoneId config)
                (destinationToken config)]) @
       map (delete_call (destinationCardsUrl config) (destinationViewsZoneId config)
              (destinationToken config)) (each_elements (res_body r1)) @
       (if js_length (res_body r1) \<noteq> None \<and>
           deleted rt (destinationCardsUrl config) (destinationViewsZoneId config)
             (destinationToken config)
             (tr @ [get_call (destinationCardsUrl config) (destinationViewsZoneId config)
                      (destinationToken config),
                    get_call (destinationDecksUrl config) (destinationViewsZoneId config)
                      (destinationToken config)])
             (each_elements (res_body r1))
        then map (delete_call (destinationDecksUrl config) (destinationViewsZoneId config)
                    (destinationToken config)) (each_elements (res_body r2)) @ post
        else []) \<and>
     list_all (\<lambda>q. http_method q \<noteq> ''DELETE'') (views_requests post) \<and>
     (post \<noteq> [] \<longrightarrow>
        js_length (res_body r2) \<noteq> None \<and>
        deleted rt (destinationDecksUrl config) (destinationViewsZoneId config)
          (destinationToken config)
          ((tr @ [get_call (destinationCardsUrl config) (destinationViewsZoneId config)
                    (destinationToken config),
                  get_call (destinationDecksUrl config) (destinationViewsZoneId config)
                    (destinationToken config)]) @
           map (delete_call (destinationCardsUrl config) (destinationViewsZoneId config)
                  (destinationToken config)) (each_elements (res_body r1)))
          (each_elements (res_body r2)))"
  unfolding clear_destination_fetched [OF assms]
  by (rule delete_cards_then_decks) (rule issues_only_migration)

lemma clear_destination_stops:
  assumes "\<And>r. fst (requestViewsData rt (destinationCardsUrl config) (destinationViewsZoneId config)
                  (destinationToken config) None Undefined tr) \<noteq> Resolved r"
  shows "snd (yield (clear_destination rt config tr) M) =
           tr @ [get_call (destinationCardsUrl config) (destinationViewsZoneId config)
                   (destinationToken config)]"
proof -
  have a: "snd (clear_destination rt config tr) =
             snd (requestViewsData rt (destinationCardsUrl config) (destinationViewsZoneId config)
                    (destinationToken config) None Undefined tr)"
    unfolding clear_destination_def by (rule snd_yield_stops) (rule assms)
  have b: "fst (clear_destination rt config tr) \<noteq> Resolved w" for w
    unfolding clear_destination_def by (rule fst_yield_stops) (rule assms)
  have "snd (yield (clear_destination rt config tr) M) = snd (clear_destination rt config tr)"
    by (rule snd_yield_stops) (rule b)
  with a show ?thesis
    by (simp add: snd_requestViewsData get_call_def)
qed

lemma clear_destination_stops_decks:
  assumes "fst (requestViewsData rt (destinationCardsUrl config) (destinationViewsZoneId config)
                  (destinationToken config) None Undefined tr) = Resolved r1"
    and "\<And>r. fst (requestViewsData rt (destinationDecksUrl config) (destinationViewsZoneId config)
                (destinationToken config) None Undefined
                (tr @ [get_call (destinationCardsUrl config) (destinationViewsZoneId config)
                         (destinationToken config)])) \<noteq> Resolved r"
  shows "snd (yield (clear_destination rt config tr) M) =
           tr @ [get_call (destinationCardsUrl config) (destinationViewsZoneId config)
                   (destinationToken config),
                 get_call (destinationDecksUrl config) (destinationViewsZoneId config)
                   (destinationToken config)]"
proof -
  have a: "snd (clear_destination rt config tr) =
             snd (requestViewsData rt (destinationDecksUrl config) (destinationViewsZoneId config)
                    (destinationToken config) None Undefined
                    (tr @ [get_call (destinationCardsUrl config) (destinationViewsZoneId config)
                             (destinationToken config)]))"
    unfolding clear_destination_def requestViewsData_Resolved [OF assms(1)] yield_Resolved
    by (rule snd_yield_stops) (rule assms(2))
  have b: "fst (clear_destination rt config tr) \<noteq> Resolved w" for w
    unfolding clear_destination_def requestViewsData_Resolved [OF assms(1)] yield_Resolved
    by (rule fst_yield_stops) (rule assms(2))
  have "snd (yield (clear_destination rt config tr) M) = snd (clear_destination rt config tr)"
    by (rule snd_yield_stops) (rule b)
  with a show ?thesis
    by (simp add: snd_requestViewsData get_call_def)
qed

text \<open>The run up to the clearing stage.\<close>

lemma migrateGenerator_tokens:
  assumes "fst (requestToken rt (originalUaaUrl c) (originalUaaCredentials c) []) = Resolved t1"
    and "fst (requestToken rt (destinationUaaUrl c) (destinationUaaCredentials c)
                [token_call (originalUaaUrl c) (originalUaaCredentials c)]) = Resolved t2"
    and "config = (getConfig c)\<lparr>originalToken := bearer t1\<rparr>\<lparr>destinationToken := bearer t2\<rparr>"
    and "tokens = [token_call (originalUaaUrl c) (originalUaaCredentials c),
                   token_call (destinationUaaUrl c) (destinationUaaCredentials c)]"
  shows "migrateGenerator rt c =
           yield (if clearDestination c then clear_destination rt config tokens
                  else (Resolved (), tokens)) (\<lambda>u tr3.
           yield (migrate_cards rt config tr3) (\<lambda>u tr4.
           yield (migrate_decks rt config tr4) (\<lambda>decks tr5.
           associate_cards rt config decks tr5)))"
proof -
  let ?T1 = "token_call (originalUaaUrl c) (originalUaaCredentials c)"
  let ?T2 = "token_call (destinationUaaUrl c) (destinationUaaCredentials c)"
  let ?config = "(getConfig c)\<lparr>originalToken := bearer t1\<rparr>\<lparr>destinationToken := bearer t2\<rparr>"
  have uaa_fields: "originalUaaUrl (getConfig c) = originalUaaUrl c"
    "originalUaaCredentials (getConfig c) = originalUaaCredentials c"
    "destinationUaaUrl ((getConfig c)\<lparr>originalToken := bearer t1\<rparr>) = destinationUaaUrl c"
    "destinationUaaCredentials ((getConfig c)\<lparr>originalToken := bearer t1\<rparr>) =
       destinationUaaCredentials c"
    by (simp_all add: getConfig_def)
  have clear: "clearDestination ?config = clearDestination c"
    by (simp add: getConfig_def)
  have p1: "requestToken rt (originalUaaUrl c) (originalUaaCredentials c) [] = (Resolved t1, [?T1])"
    using requestToken_Resolved [OF assms(1)] by simp
  have p2: "requestToken rt (destinationUaaUrl c) (destinationUaaCredentials c) [?T1] =
              (Resolved t2, [?T1, ?T2])"
    using requestToken_Resolved [OF assms(2)] by simp
  have "migrateGenerator rt c =
          yield (if clearDestination ?config then clear_destination rt ?config [?T1, ?T2]
                 else (Resolved (), [?T1, ?T2])) (\<lambda>u tr3.
          yield (migrate_cards rt ?config tr3) (\<lambda>u tr4.
          yield (migrate_decks rt ?config tr4) (\<lambda>decks tr5.
          associate_cards rt ?config decks tr5)))"
    unfolding migrateGenerator_def Let_def uaa_fields p1 yield_Resolved p2 ..
  then show ?thesis
    unfolding assms(3,4) clear .
qed

lemma migrateGenerator_no_token:
  assumes "\<And>t. fst (requestToken rt (originalUaaUrl c) (originalUaaCredentials c) []) \<noteq> Resolved t"
  shows "snd (migrateGenerator rt c) = [token_call (originalUaaUrl c) (originalUaaCredentials c)]"
proof -
  have "snd (migrateGenerator rt c) =
          snd (requestToken rt (originalUaaUrl (getConfig c)) (originalUaaCredentials (getConfig c)) [])"
    unfolding migrateGenerator_def Let_def by (rule snd_yield_stops) (simp add: getConfig_def assms)
  then show ?thesis
    by (simp add: snd_requestToken token_call_def getConfig_def)
qed

lemma migrateGenerator_no_second_token:
  assumes "fst (requestToken rt (originalUaaUrl c) (originalUaaCredentials c) []) = Resolved t1"
    and "\<And>t. fst (requestToken rt (destinationUaaUrl c) (destinationUaaCredentials c)
                [token_call (originalUaaUrl c) (originalUaaCredentials c)]) \<noteq> Resolved t"
  shows "snd (migrateGenerator rt c) =
           [token_call (originalUaaUrl c) (originalUaaCredentials c),
            token_call (destinationUaaUrl c) (destinationUaaCredentials c)]"
proof -
  let ?T1 = "token_call (originalUaaUrl c) (originalUaaCredentials c)"
  have uaa_fields: "originalUaaUrl (getConfig c) = originalUaaUrl c"
    "originalUaaCredentials (getConfig c) = originalUaaCredentials c"
    "destinationUaaUrl ((getConfig c)\<lparr>originalToken := bearer t1\<rparr>) = destinationUaaUrl c"
    "destinationUaaCredentials ((getConfig c)\<lparr>originalToken := bearer t1\<rparr>) =
       destinationUaaCredentials c"
    by (simp_all add: getConfig_def)
  have p1: "requestToken rt (originalUaaUrl c) (originalUaaCredentials c) [] = (Resolved t1, [?T1])"
    using requestToken_Resolved [OF assms(1)] by simp
  have "snd (migrateGenerator rt c) =
          snd (requestToken rt (destinationUaaUrl c) (destinationUaaCredentials c) [?T1])"
    unfolding migrateGenerator_def Let_def uaa_fields p1 yield_Resolved
    by (rule snd_yield_stops) (rule assms(2))
  then show ?thesis
    by (simp add: snd_requestToken token_call_def)
qed

text \<open>
  Claim C7.  Without \<open>clearDestination\<close> the run issues no \<open>DELETE\<close>.  With it,
  the requests of every run are \<open>GET\<close>s, then \<open>DELETE\<close>s, then requests that are
  no \<open>DELETE\<close>, the creating \<open>POST\<close>s among them.  When both tokens and both
  lists of the destination have been fetched, the calls are exactly: the two token
  calls and the two \<open>GET\<close>s; one \<open>DELETE\<close> for each card of the fetched list; then,
  only if that list has a length and every one of these \<open>DELETE\<close> requests has
  resolved, one \<open>DELETE\<close> for each deck of the fetched list and the calls of the
  migration.  The migration issues a call only if every \<open>DELETE\<close> request for a deck
  has resolved as well.
\<close>

theorem clear_destination_first:
  "(\<not> clearDestination c \<longrightarrow>
      list_all (\<lambda>q. http_method q \<noteq> ''DELETE'') (views_requests (snd (migrateGenerator rt c)))) \<and>
   (clearDestination c \<longrightarrow>
      (\<exists>gets deletes rest.
         views_requests (snd (migrateGenerator rt c)) = gets @ deletes @ rest \<and>
         list_all (\<lambda>q. http_method q = ''GET'') gets \<and>
         list_all (\<lambda>q. http_method q = ''DELETE'') deletes \<and>
         list_all (\<lambda>q. http_method q \<noteq> ''DELETE'') rest)) \<and>
   (clearDestination c \<longrightarrow>
      (let tokens = [token_call (originalUaaUrl c) (originalUaaCredentials c),
                     token_call (destinationUaaUrl c) (destinationUaaCredentials c)];
           cu = destinationViewsUrl c @ ''/api/cards'';
           du = destinationViewsUrl c @ ''/api/decks'';
           z = destinationViewsZoneId c;
           t = bearer destination_token;
           tr0 = tokens @ [get_call cu z t, get_call du z t];
           cards = each_elements (res_body fetched_cards);
           decks = each_elements (res_body fetched_decks)
       in fst (requestToken rt (originalUaaUrl c) (originalUaaCredentials c) []) =
            Resolved origin_token \<and>
          fst (requestToken rt (destinationUaaUrl c) (destinationUaaCredentials c)
                 (take 1 tokens)) = Resolved destination_token \<and>
          fst (requestViewsData rt cu z t None Undefined tokens) = Resolved fetched_cards \<and>
          fst (requestViewsData rt du z t None Undefined (tokens @ [get_call cu z t])) =
            Resolved fetched_decks \<longrightarrow>
          (\<exists>post.
             snd (migrateGenerator rt c) =
               tr0 @ map (delete_call cu z t) cards @
               (if js_length (res_body fetched_cards) \<noteq> None \<and> deleted rt cu z t tr0 cards
                then map (delete_call du z t) decks @ post else []) \<and>
             list_all (\<lambda>q. http_method q \<noteq> ''DELETE'') (views_requests post) \<and>
             (post \<noteq> [] \<longrightarrow>
                js_length (res_body fetched_decks) \<noteq> None \<and>
                deleted rt du z t (tr0 @ map (delete_call cu z t) cards) decks))))"
proof -
  let ?T1 = "token_call (originalUaaUrl c) (originalUaaCredentials c)"
  let ?T2 = "token_call (destinationUaaUrl c) (destinationUaaCredentials c)"
  let ?cu = "destinationViewsUrl c @ ''/api/cards''"
  let ?du = "destinationViewsUrl c @ ''/api/decks''"
  let ?z = "destinationViewsZoneId c"
  let ?p1 = "requestToken rt (originalUaaUrl c) (originalUaaCredentials c) []"
  let ?p2 = "requestToken rt (destinationUaaUrl c) (destinationUaaCredentials c) [?T1]"
  let ?g1 = "\<lambda>t2. requestViewsData rt ?cu ?z (bearer t2) None Undefined [?T1, ?T2]"
  let ?g2 = "\<lambda>t2. requestViewsData rt ?du ?z (bearer t2) None Undefined
                     [?T1, ?T2, get_call ?cu ?z (bearer t2)]"
  let ?tr0 = "\<lambda>t2. [?T1, ?T2, get_call ?cu ?z (bearer t2), get_call ?du ?z (bearer t2)]"
  let ?run = "snd (migrateGenerator rt c)"
  let ?order = "\<lambda>trace. \<exists>gets deletes rest.
         views_requests trace = gets @ deletes @ rest \<and>
         list_all (\<lambda>q. http_method q = ''GET'') gets \<and>
         list_all (\<lambda>q. http_method q = ''DELETE'') deletes \<and>
         list_all (\<lambda>q. http_method q \<noteq> ''DELETE'') rest"
  let ?config = "\<lambda>t1 t2. (getConfig c)\<lparr>originalToken := bearer t1\<rparr>\<lparr>destinationToken := bearer t2\<rparr>"
  have fields: "destinationCardsUrl (?config t1 t2) = ?cu"
    "destinationDecksUrl (?config t1 t2) = ?du"
    "destinationViewsZoneId (?config t1 t2) = ?z"
    "destinationToken (?config t1 t2) = bearer t2" for t1 t2
    by (simp_all add: getConfig_def)
  have only_gets: "?order trace"
    if "list_all (\<lambda>q. http_method q = ''GET'') (views_requests trace)" for trace
    using that by (intro exI [of _ "views_requests trace"] exI [of _ "[]"]) simp
  have fetched: "\<exists>post.
             ?run =
               ?tr0 t2 @ map (delete_call ?cu ?z (bearer t2)) (each_elements (res_body r1)) @
               (if js_length (res_body r1) \<noteq> None \<and>
                   deleted rt ?cu ?z (bearer t2) (?tr0 t2) (each_elements (res_body r1))
                then map (delete_call ?du ?z (bearer t2)) (each_elements (res_body r2)) @ post
                else []) \<and>
             list_all (\<lambda>q. http_method q \<noteq> ''DELETE'') (views_requests post) \<and>
             (post \<noteq> [] \<longrightarrow>
                js_length (res_body r2) \<noteq> None \<and>
                deleted rt ?du ?z (bearer t2)
                  (?tr0 t2 @ map (delete_call ?cu ?z (bearer t2)) (each_elements (res_body r1)))
                  (each_elements (res_body r2)))"
    if "clearDestination c" "fst ?p1 = Resolved t1" "fst ?p2 = Resolved t2"
      "fst (?g1 t2) = Resolved r1" "fst (?g2 t2) = Resolved r2" for t1 t2 r1 r2
  proof -
    from migrateGenerator_tokens [OF that(2) that(3) refl refl] that(1)
    have run: "migrateGenerator rt c =
                 yield (clear_destination rt (?config t1 t2) [?T1, ?T2]) (\<lambda>u tr3.
                 yield (migrate_cards rt (?config t1 t2) tr3) (\<lambda>u tr4.
                 yield (migrate_decks rt (?config t1 t2) tr4) (\<lambda>decks tr5.
                 associate_cards rt (?config t1 t2) decks tr5)))"
      by simp
    have g1: "fst (requestViewsData rt (destinationCardsUrl (?config t1 t2))
                     (destinationViewsZoneId (?config t1 t2)) (destinationToken (?config t1 t2))
                     None Undefined [?T1, ?T2]) = Resolved r1"
      unfolding fields by (rule that(4))
    have g2: "fst (requestViewsData rt (destinationDecksUrl (?config t1 t2))
                     (destinationViewsZoneId (?config t1 t2)) (destinationToken (?config t1 t2))
                     None Undefined
                     ([?T1, ?T2] @
                      [get_call (destinationCardsUrl (?config t1 t2))
                         (destinationViewsZoneId (?config t1 t2))
                         (destinationToken (?config t1 t2))])) = Resolved r2"
      unfolding fields using that(5) by simp
    from clear_then_migrate [OF g1 g2] show ?thesis
      unfolding run fields by simp
  qed
  have general: "(\<not> clearDestination c \<longrightarrow>
                    list_all (\<lambda>q. http_method q \<noteq> ''DELETE'') (views_requests ?run)) \<and>
                 (clearDestination c \<longrightarrow> ?order ?run)"
  proof (cases "\<exists>t1. fst ?p1 = Resolved t1")
    case False
    then have "?run = [?T1]"
      by (intro migrateGenerator_no_token) blast
    then have v: "views_requests ?run = []"
      by (simp add: token_calls_none)
    with only_gets [of ?run] show ?thesis by simp
  next
    case True
    then obtain t1 where t1: "fst ?p1 = Resolved t1" by blast
    show ?thesis
    proof (cases "\<exists>t2. fst ?p2 = Resolved t2")
      case False
      then have "?run = [?T1, ?T2]"
        by (intro migrateGenerator_no_second_token [OF t1]) blast
      then have v: "views_requests ?run = []"
        by (simp add: token_calls_none)
      with only_gets [of ?run] show ?thesis by simp
    next
      case True
      then obtain t2 where t2: "fst ?p2 = Resolved t2" by blast
      note run = migrateGenerator_tokens [OF t1 t2 refl refl]
      show ?thesis
      proof (cases "clearDestination c")
        case False
        from issues_only_ext [OF issues_only_migration [of "[?T1, ?T2]" rt "?config t1 t2"]]
        obtain ext where "snd (yield (migrate_cards rt (?config t1 t2) [?T1, ?T2]) (\<lambda>u tr4.
                               yield (migrate_decks rt (?config t1 t2) tr4) (\<lambda>decks tr5.
                               associate_cards rt (?config t1 t2) decks tr5))) = [?T1, ?T2] @ ext"
          "list_all (\<lambda>q. http_method q \<noteq> ''DELETE'') (views_requests ext)"
          by blast
        with False show ?thesis
          unfolding run by (simp add: yield_Resolved token_calls_none)
      next
        case clear: True
        have "?order ?run"
        proof (cases "\<exists>r1. fst (?g1 t2) = Resolved r1")
          case False
          then have "\<And>r. fst (requestViewsData rt (destinationCardsUrl (?config t1 t2))
                     (destinationViewsZoneId (?config t1 t2)) (destinationToken (?config t1 t2))
                     None Undefined [?T1, ?T2]) \<noteq> Resolved r"
            unfolding fields by blast
          from clear_destination_stops [OF this] clear
          have "?run = [?T1, ?T2, get_call ?cu ?z (bearer t2)]"
            unfolding run fields by simp
          then have "list_all (\<lambda>q. http_method q = ''GET'') (views_requests ?run)"
            by (simp add: token_calls_none get_calls_get)
          then show ?thesis by (rule only_gets)
        next
          case True
          then obtain r1 where r1: "fst (?g1 t2) = Resolved r1" by blast
          have g1: "fst (requestViewsData rt (destinationCardsUrl (?config t1 t2))
                     (destinationViewsZoneId (?config t1 t2)) (destinationToken (?config t1 t2))
                     None Undefined [?T1, ?T2]) = Resolved r1"
            unfolding fields by (rule r1)
          show ?thesis
          proof (cases "\<exists>r2. fst (?g2 t2) = Resolved r2")
            case False
            then have "\<And>r. fst (requestViewsData rt (destinationDecksUrl (?config t1 t2))
                     (destinationViewsZoneId (?config t1 t2)) (destinationToken (?config t1 t2))
                     None Undefined
                     ([?T1, ?T2] @
                      [get_call (destinationCardsUrl (?config t1 t2))
                         (destinationViewsZoneId (?config t1 t2))
                         (destinationToken (?config t1 t2))])) \<noteq> Resolved r"
              unfolding fields by simp
            from clear_destination_stops_decks [OF g1 this] clear
            have "?run = ?tr0 t2"
              unfolding run fields by simp
            then have "list_all (\<lambda>q. http_method q = ''GET'') (views_requests ?run)"
              by (simp add: token_calls_none get_calls_get)
            then show ?thesis by (rule only_gets)
          next
            case True
            then obtain r2 where r2: "fst (?g2 t2) = Resolved r2" by blast
            let ?dc = "map (delete_call ?cu ?z (bearer t2)) (each_elements (res_body r1))"
            let ?dd = "map (delete_call ?du ?z (bearer t2)) (each_elements (res_body r2))"
            from fetched [OF clear t1 t2 r1 r2]
            obtain post where
              post: "?run = ?tr0 t2 @ ?dc @
                       (if js_length (res_body r1) \<noteq> None \<and>
                           deleted rt ?cu ?z (bearer t2) (?tr0 t2) (each_elements (res_body r1))
                        then ?dd @ post else [])"
                "list_all (\<lambda>q. http_method q \<noteq> ''DELETE'') (views_requests post)"
              by blast
            have gets: "list_all (\<lambda>q. http_method q = ''GET'') (views_requests (?tr0 t2))"
              by (simp add: token_calls_none get_calls_get)
            show ?thesis
            proof (cases "js_length (res_body r1) \<noteq> None \<and>
                           deleted rt ?cu ?z (bearer t2) (?tr0 t2) (each_elements (res_body r1))")
              case True
              from post(1) have "?run = ?tr0 t2 @ ?dc @ ?dd @ post"
                unfolding if_P [OF True] .
              then have "views_requests ?run =
                  views_requests (?tr0 t2) @ views_requests (?dc @ ?dd) @ views_requests post"
                by (simp add: views_requests_append token_calls_none get_calls_get)
              moreover have "list_all (\<lambda>q. http_method q = ''DELETE'') (views_requests (?dc @ ?dd))"
                using delete_calls_delete [of ?cu ?z "bearer t2" "each_elements (res_body r1)"]
                  delete_calls_delete [of ?du ?z "bearer t2" "each_elements (res_body r2)"]
                by (simp add: views_requests_append)
              ultimately show ?thesis using gets post(2) by blast
            next
              case False
              from post(1) have "?run = ?tr0 t2 @ ?dc @ []"
                unfolding if_not_P [OF False] .
              then have "views_requests ?run =
                  views_requests (?tr0 t2) @ views_requests ?dc @ []"
                by (simp add: views_requests_append token_calls_none get_calls_get)
              moreover have "list_all (\<lambda>q. http_method q = ''DELETE'') (views_requests ?dc)"
                by (rule delete_calls_delete)
              moreover have "list_all (\<lambda>q. http_method q \<noteq> ''DELETE'') []"
                by simp
              ultimately show ?thesis using gets by blast
            qed
          qed
        qed
        with clear show ?thesis by simp
      qed
    qed
  qed
  have pinned: "clearDestination c \<longrightarrow>
      (let tokens = [?T1, ?T2];
           cu = ?cu; du = ?du; z = ?z;
           t = bearer destination_token;
           tr0 = tokens @ [get_call cu z t, get_call du z t];
           cards = each_elements (res_body fetched_cards);
           decks = each_elements (res_body fetched_decks)
       in fst (requestToken rt (originalUaaUrl c) (originalUaaCredentials c) []) =
            Resolved origin_token \<and>
          fst (requestToken rt (destinationUaaUrl c) (destinationUaaCredentials c)
                 (take 1 tokens)) = Resolved destination_token \<and>
          fst (requestViewsData rt cu z t None Undefined tokens) = Resolved fetched_cards \<and>
          fst (requestViewsData rt du z t None Undefined (tokens @ [get_call cu z t])) =
            Resolved fetched_decks \<longrightarrow>
          (\<exists>post.
             snd (migrateGenerator rt c) =
               tr0 @ map (delete_call cu z t) cards @
               (if js_length (res_body fetched_cards) \<noteq> None \<and> deleted rt cu z t tr0 cards
                then map (delete_call du z t) decks @ post else []) \<and>
             list_all (\<lambda>q. http_method q \<noteq> ''DELETE'') (views_requests post) \<and>
             (post \<noteq> [] \<longrightarrow>
                js_length (res_body fetched_decks) \<noteq> None \<and>
                deleted rt du z t (tr0 @ map (delete_call cu z t) cards) decks)))"
    unfolding Let_def
  proof (intro impI, elim conjE)
    assume "clearDestination c"
      and "fst ?p1 = Resolved origin_token"
      and "fst (requestToken rt (destinationUaaUrl c) (destinationUaaCredentials c)
                 (take 1 [?T1, ?T2])) = Resolved destination_token"
      and "fst (?g1 destination_token) = Resolved fetched_cards"
      and "fst (requestViewsData rt ?du ?z (bearer destination_token) None Undefined
                 ([?T1, ?T2] @ [get_call ?cu ?z (bearer destination_token)])) =
           Resolved fetched_decks"
    then have "clearDestination c" "fst ?p1 = Resolved origin_token"
      "fst ?p2 = Resolved destination_token"
      "fst (?g1 destination_token) = Resolved fetched_cards"
      "fst (?g2 destination_token) = Resolved fetched_decks"
      by simp_all
    from fetched [OF this] show "\<exists>post.
             snd (migrateGenerator rt c) =
               ([?T1, ?T2] @ [get_call ?cu ?z (bearer destination_token),
                              get_call ?du ?z (bearer destination_token)]) @
               map (delete_call ?cu ?z (bearer destination_token))
                 (each_elements (res_body fetched_cards)) @
               (if js_length (res_body fetched_cards) \<noteq> None \<and>
                   deleted rt ?cu ?z (bearer destination_token)
                     ([?T1, ?T2] @ [get_call ?cu ?z (bearer destination_token),
                                    get_call ?du ?z (bearer destination_token)])
                     (each_elements (res_body fetched_cards))
                then map (delete_call ?du ?z (bearer destination_token))
                       (each_elements (res_body fetched_decks)) @ post
                else []) \<and>
             list_all (\<lambda>q. http_method q \<noteq> ''DELETE'') (views_requests post) \<and>
             (post \<noteq> [] \<longrightarrow>
                js_length (res_body fetched_decks) \<noteq> None \<and>
                deleted rt ?du ?z (bearer destination_token)
                  (([?T1, ?T2] @ [get_call ?cu ?z (bearer destination_token),
                                  get_call ?du ?z (bearer destination_token)]) @
                   map (delete_call ?cu ?z (bearer destination_token))
                     (each_elements (res_body fetched_cards)))
                  (each_elements (res_body fetched_decks)))"
      by simp
  qed
  from general pinned show ?thesis
    by (intro conjI) (rule conjunct1, assumption, rule conjunct2, assumption, assumption)
qed

text \<open>The sample run with the destination cleared, as methods and URLs.\<close>

lemmas sample_defs = migrateGenerator_def getConfig_def Let_def yield_def requestToken_def
  requestToken_callback_def token_options_def runtime_of_def sample_uaa_def
  sample_JSON_parse_token_def sample_JSON_parse_def two_instances_def created_def status_def
  clear_destination_def requestViewsData_def requestViewsData_callback_def views_options_def
  method_or_GET_def deleteData_def addTags_def then_resolve_def migrate_cards_def
  migrate_decks_def associate_cards_def has_tags_def has_cards_def has_attributes_cards_def
  tag_values_def card_ids_def attributes_card_ids_def card_1_def card_2_def card_3_def
  deck_d1_def deck_d2_def toString_samples sample_config_def bearer_def

lemma sample_run_cleared:
  "map (\<lambda>q. (http_method q, url q))
     (views_requests
        (snd (migrateGenerator (runtime_of sample_uaa two_instances) (sample_config True)))) =
   [(''GET'', ''https://destination/api/cards''),
    (''GET'', ''https://destination/api/decks''),
    (''DELETE'', ''https://destination/api/cards/1''),
    (''DELETE'', ''https://destination/api/cards/2''),
    (''DELETE'', ''https://destination/api/cards/3''),
    (''DELETE'', ''https://destination/api/decks/d1''),
    (''GET'', ''https://origin/api/cards''),
    (''POST'', ''https://destination/api/cards''),
    (''GET'', ''https://destination/api/cards''),
    (''POST'', ''https://destination/api/cards/1/tags''),
    (''GET'', ''https://origin/api/decks?filter[include][cards]''),
    (''POST'', ''https://destination/api/decks''),
    (''POST'', ''https://destination/api/decks/d2/tags''),
    (''POST'', ''https://origin/api/decks/d1/cards/add''),
    (''POST'', ''https://destination/api/decks/d2/cards/add'')]"
  by (simp add: sample_defs)

text \<open>
  The theorem at work, on the scenario of a destination that holds three cards and one
  deck.  Three deletions of cards and one of a deck follow the fetches and come before
  every other call.  When the destination refuses to delete its card 2, the three
  deletions of cards are the last calls of the run: no deck is deleted and nothing is
  created.  Without \<open>clearDestination\<close> there is no \<open>DELETE\<close>.
\<close>

theorem clear_destination_first_witness:
  "(\<exists>post.
      snd (migrateGenerator (runtime_of sample_uaa two_instances) (sample_config True)) =
        [token_call ''https://uaa-origin'' ''b3JpZ2lu'',
         token_call ''https://uaa-destination'' ''ZGVzdA=='',
         get_call ''https://destination/api/cards'' ''destination-zone'' ''Bearer abc'',
         get_call ''https://destination/api/decks'' ''destination-zone'' ''Bearer abc''] @
        map (delete_call ''https://destination/api/cards'' ''destination-zone'' ''Bearer abc'')
          [card_1, card_2, card_3] @
        map (delete_call ''https://destination/api/decks'' ''destination-zone'' ''Bearer abc'')
          [deck_d1] @ post \<and>
      list_all (\<lambda>q. http_method q \<noteq> ''DELETE'') (views_requests post)) \<and>
   snd (migrateGenerator (runtime_of sample_uaa keeps_card_2) (sample_config True)) =
     [token_call ''https://uaa-origin'' ''b3JpZ2lu'',
      token_call ''https://uaa-destination'' ''ZGVzdA=='',
      get_call ''https://destination/api/cards'' ''destination-zone'' ''Bearer abc'',
      get_call ''https://destination/api/decks'' ''destination-zone'' ''Bearer abc''] @
     map (delete_call ''https://destination/api/cards'' ''destination-zone'' ''Bearer abc'')
       [card_1, card_2, card_3] \<and>
   list_all (\<lambda>q. http_method q \<noteq> ''DELETE'')
     (views_requests
        (snd (migrateGenerator (runtime_of sample_uaa two_instances) (sample_config False))))"
proof -
  let ?token = "\<lparr>access_token = Some ''abc''\<rparr>"
  let ?cards = "\<lparr>res_body = Items [card_1, card_2, card_3], res_headers = []\<rparr>"
  let ?decks = "\<lparr>res_body = Items [deck_d1], res_headers = []\<rparr>"
  note evaluation = Let_def requestToken_def requestToken_callback_def token_options_def
    runtime_of_def sample_uaa_def sample_JSON_parse_token_def two_instances_def keeps_card_2_def
    created_def status_def requestViewsData_def requestViewsData_callback_def views_options_def
    method_or_GET_def toString_samples sample_config_def bearer_def deleted_def delete_call_def
    token_call_def get_call_def card_1_def card_2_def card_3_def deck_d1_def
  have cleared: "\<exists>post.
      snd (migrateGenerator (runtime_of sample_uaa two_instances) (sample_config True)) =
        [token_call ''https://uaa-origin'' ''b3JpZ2lu'',
         token_call ''https://uaa-destination'' ''ZGVzdA=='',
         get_call ''https://destination/api/cards'' ''destination-zone'' ''Bearer abc'',
         get_call ''https://destination/api/decks'' ''destination-zone'' ''Bearer abc''] @
        map (delete_call ''https://destination/api/cards'' ''destination-zone'' ''Bearer abc'')
          [card_1, card_2, card_3] @
        map (delete_call ''https://destination/api/decks'' ''destination-zone'' ''Bearer abc'')
          [deck_d1] @ post \<and>
      list_all (\<lambda>q. http_method q \<noteq> ''DELETE'') (views_requests post)"
    using clear_destination_first [where c = "sample_config True"
        and rt = "runtime_of sample_uaa two_instances" and origin_token = ?token
        and destination_token = ?token and fetched_cards = ?cards and fetched_decks = ?decks]
    by (auto simp: evaluation)
  have kept: "snd (migrateGenerator (runtime_of sample_uaa keeps_card_2) (sample_config True)) =
     [token_call ''https://uaa-origin'' ''b3JpZ2lu'',
      token_call ''https://uaa-destination'' ''ZGVzdA=='',
      get_call ''https://destination/api/cards'' ''destination-zone'' ''Bearer abc'',
      get_call ''https://destination/api/decks'' ''destination-zone'' ''Bearer abc''] @
     map (delete_call ''https://destination/api/cards'' ''destination-zone'' ''Bearer abc'')
       [card_1, card_2, card_3]"
    using clear_destination_first [where c = "sample_config True"
        and rt = "runtime_of sample_uaa keeps_card_2" and origin_token = ?token
        and destination_token = ?token and fetched_cards = ?cards and fetched_decks = ?decks]
    by (auto simp: evaluation)
  have none: "list_all (\<lambda>q. http_method q \<noteq> ''DELETE'')
     (views_requests
        (snd (migrateGenerator (runtime_of sample_uaa two_instances) (sample_config False))))"
    using clear_destination_first [where c = "sample_config False"
        and rt = "runtime_of sample_uaa two_instances"]
    by (simp add: sample_config_def)
  from cleared kept none show ?thesis
    by (intro conjI)
qed

section \<open>Where the tags and the associations go\<close>

text \<open>
  Claim C2 at a failing input: the round-trip scenario, on a destination that gives the
  cards it creates the ids 101 and 102.  The fetch after the creation returns these
  ids, and the tags of card 1 are posted to \<open>.../api/cards/1/tags\<close>, the id the card
  has at the origin.
\<close>

theorem tags_posted_to_origin_ids:
  "map (\<lambda>q. (http_method q, url q))
     (take 4 (views_requests
        (snd (migrateGenerator (runtime_of sample_uaa two_instances) (sample_config False))))) =
   [(''GET'', ''https://origin/api/cards''),
    (''POST'', ''https://destination/api/cards''),
    (''GET'', ''https://destination/api/cards''),
    (''POST'', ''https://destination/api/cards/1/tags'')] \<and>
   fst (requestViewsData (runtime_of sample_uaa two_instances) ''https://destination/api/cards''
          ''destination-zone'' ''Bearer abc'' None Undefined
          (take 4 (snd (migrateGenerator (runtime_of sample_uaa two_instances)
                          (sample_config False))))) =
   Resolved \<lparr>res_body = Items [card_1\<lparr>item_id := ''101''\<rparr>, card_2\<lparr>item_id := ''102''\<rparr>],
             res_headers = []\<rparr>"
  by (simp add: sample_defs)

text \<open>
  Claim C3 at a failing input: the deck of the association scenario, whose cards are
  under \<open>attributes\<close>.  The only call is the one to the origin; the destination
  receives none.
\<close>

theorem destination_association_skipped:
  "map (\<lambda>q. (http_method q, url q, body q))
     (views_requests
        (snd (associate_cards (runtime_of sample_uaa two_instances)
                (getConfig (sample_config False)) (Items [deck_d1]) []))) =
   [(''POST'', ''https://origin/api/decks/d1/cards/add'', CardIds [''1'', ''2''])]"
  by (simp add: sample_defs)

section \<open>The association at the origin is not awaited\<close>







































text \<open>
  An answer of the origin that \<open>JSON.parse\<close> cannot decode is outside the theorem:
  the callback of the dropped call throws, and the run does not end as it does on the
  other transports.
\<close>

lemma origin_answer_not_decoded:
  "fst (migrateGenerator
          (runtime_of sample_uaa
             (\<lambda>h q. if length h = 9 then (None, Some (status 200), Text ''OK'')
                    else two_instances h q))
          (sample_config False)) = Pending"
  by (simp add: sample_defs)

end
